theory Spec2Isabelle
  imports Complex_Main
begin

section \<open>Shared modelling of the Go runtime and the chat platform\<close>

text \<open>
  The repository holds two Cloud Function handlers for Telegram web hooks:
  \<^verbatim>\<open>src/unnamed/part_000\<close> (variant 1, the celebration rotation) and
  \<^verbatim>\<open>src/another_example.go\<close> (variant 2, the geofenced treasure hunt).

  Go strings are byte sequences, so a string is a \<^typ>\<open>char list\<close> holding the UTF-8
  bytes of the source literal. Go's \<^verbatim>\<open>int\<close> is modelled by \<^typ>\<open>int\<close>: the handlers
  do no arithmetic on it apart from the index increment, which is only reached after the
  bounds check of the array access. A \<^verbatim>\<open>float64\<close> is a value of a datatype of its
  own, and the floating-point operations and the functions of package \<^verbatim>\<open>math\<close> are
  parameters of the model: what they round to, where they overflow and where they give
  NaN is left to them.

  Calls of \<^verbatim>\<open>log.Printf\<close> have no influence on control flow or on the outbound
  traffic and are left out.
\<close>

subsection \<open>Errors\<close>

text \<open>
  A Go \<^verbatim>\<open>error\<close> value: the one error the repository creates itself
  (\<^verbatim>\<open>errors.New\<close>), the two errors of \<^verbatim>\<open>strconv\<close>, and errors handed over by
  the JSON decoder and the HTTP client, which are opaque here. \<^verbatim>\<open>nil\<close> is
  \<^term>\<open>None\<close> of an optional error.
\<close>

datatype go_error = errors_New string | ErrSyntax | ErrRange | Foreign string

subsection \<open>\<^verbatim>\<open>float64\<close>\<close>

text \<open>
  A \<^verbatim>\<open>float64\<close> is a finite value, given by the real number it denotes, an infinity
  or NaN. The two zeros are not told apart. The comparison is that of Go: it is false
  as soon as one side is NaN.
\<close>

datatype float64 = Finite real | PosInf | NegInf | NaN

definition f64_less :: "float64 \<Rightarrow> float64 \<Rightarrow> bool" where
  "f64_less x y =
     (case (x, y) of
        (Finite a, Finite b) \<Rightarrow> a < b
      | (Finite a, PosInf) \<Rightarrow> True
      | (NegInf, Finite b) \<Rightarrow> True
      | (NegInf, PosInf) \<Rightarrow> True
      | _ \<Rightarrow> False)"

text \<open>
  The operations \<^verbatim>\<open>+\<close>, \<^verbatim>\<open>-\<close>, \<^verbatim>\<open>*\<close>, \<^verbatim>\<open>/\<close> on \<^verbatim>\<open>float64\<close> and the
  functions of package \<^verbatim>\<open>math\<close> that the repository calls. They belong to the
  hardware and to the standard library, and every property below holds for whatever
  they compute.
\<close>

record float64_ops =
  f64_add :: "float64 \<Rightarrow> float64 \<Rightarrow> float64"
  f64_sub :: "float64 \<Rightarrow> float64 \<Rightarrow> float64"
  f64_mul :: "float64 \<Rightarrow> float64 \<Rightarrow> float64"
  f64_quo :: "float64 \<Rightarrow> float64 \<Rightarrow> float64"
  math_Sin :: "float64 \<Rightarrow> float64"
  math_Cos :: "float64 \<Rightarrow> float64"
  math_Asin :: "float64 \<Rightarrow> float64"
  math_Sqrt :: "float64 \<Rightarrow> float64"
  math_Pow :: "float64 \<Rightarrow> float64 \<Rightarrow> float64"

text \<open>
  The constant \<^verbatim>\<open>math.Pi\<close> as a \<^verbatim>\<open>float64\<close>: the double nearest to the number,
  \<^verbatim>\<open>0x400921FB54442D18\<close>.
\<close>

definition Pi64 :: real where
  "Pi64 = 884279719003555 / 281474976710656"

definition math_Pi :: float64 where
  "math_Pi = Finite Pi64"

subsection \<open>Outbound HTTP requests\<close>

text \<open>The three endpoint URLs, built once from the bot token of the environment.\<close>

datatype endpoint = telegramApiSend | telegramApiEdit | telegramApiSendLocation

text \<open>
  \<^verbatim>\<open>keyboard := make(map[string][][]map[string]string)\<close>: maps are association lists
  in the order the source fills them.
\<close>

type_synonym keyboard = "(string \<times> (string \<times> string) list list list) list"

text \<open>
  One value of a \<^verbatim>\<open>url.Values\<close> form. \<^verbatim>\<open>json.Marshal\<close> and
  \<^verbatim>\<open>strconv.FormatFloat(x, 'E', -1, 64)\<close> are kept symbolic: the value records what
  was marshalled or formatted.
\<close>

datatype form_value = Str string | json_Marshal keyboard | FormatFloat_E float64

type_synonym url_Values = "(string \<times> form_value) list"

datatype request = PostForm endpoint url_Values

text \<open>
  What the platform does with one \<^verbatim>\<open>http.PostForm\<close>: either the call fails with a
  transport error, or it yields a response whose body \<^verbatim>\<open>ioutil.ReadAll\<close> reads
  into bytes together with an optional read error. The network is a parameter of every
  sender; its answer may depend on the requests made before.
\<close>

datatype http_outcome = PostErr go_error | PostOk string "go_error option"

type_synonym net = "request list \<Rightarrow> request \<Rightarrow> http_outcome"

subsection \<open>\<^verbatim>\<open>strconv.Itoa\<close> and the \<^verbatim>\<open>%d\<close> verb\<close>

definition digit_char :: "nat \<Rightarrow> char" where
  "digit_char d = ''0123456789'' ! d"

fun digits :: "nat \<Rightarrow> string" where
  "digits n = (if n < 10 then [digit_char n] else digits (n div 10) @ [digit_char (n mod 10)])"

declare digits.simps [simp del]

definition Itoa :: "int \<Rightarrow> string" where
  "Itoa i = (if i < 0 then CHR ''-'' # digits (nat (- i)) else digits (nat i))"

section \<open>Variant 2: the geofenced treasure hunt (\<^verbatim>\<open>src/another_example.go\<close>)\<close>

subsection \<open>Data model\<close>

record Location =
  Longitude :: float64
  Latitude :: float64

record Audio =
  Audio_FileId :: string
  Audio_Duration :: int

type_synonym Voice = Audio

record Document =
  Document_FileId :: string
  Document_FileName :: string

record Chat =
  Chat_Id :: int
  Chat_Username :: string

record Message =
  Message_Id :: int
  Message_Text :: string
  Message_Chat :: Chat
  Message_Audio :: Audio
  Message_Voice :: Voice
  Message_Document :: Document
  Message_Location :: Location

record User =
  User_Id :: int
  User_Username :: string

record CallbackQuerry =
  CallbackQuerry_Id :: string
  CallbackQuerry_From :: User
  CallbackQuerry_Data :: string
  CallbackQuerry_Message :: Message
  CallbackQuerry_InlineMessageId :: string

record Update =
  UpdateId :: int
  Update_Message :: Message
  Update_CallbackQuerry :: CallbackQuerry

text \<open>The zero value of a \<^verbatim>\<open>Message\<close>: what decoding leaves when the JSON has no
  \<^verbatim>\<open>message\<close> member.\<close>

definition zero_Message :: Message where
  "zero_Message =
     \<lparr>Message_Id = 0, Message_Text = [],
      Message_Chat = \<lparr>Chat_Id = 0, Chat_Username = []\<rparr>,
      Message_Audio = \<lparr>Audio_FileId = [], Audio_Duration = 0\<rparr>,
      Message_Voice = \<lparr>Audio_FileId = [], Audio_Duration = 0\<rparr>,
      Message_Document = \<lparr>Document_FileId = [], Document_FileName = []\<rparr>,
      Message_Location = \<lparr>Longitude = Finite 0, Latitude = Finite 0\<rparr>\<rparr>"

definition ANTON_CHAT_ID :: int where
  "ANTON_CHAT_ID = 49208041"

definition ALLOWED_USERS :: "string list" where
  "ALLOWED_USERS = [''antonhulikau'', ''sonicfelidae'']"

text \<open>
  The candidates. Each coordinate is the double that the decimal literal of the source
  denotes, written as the exact fraction: \<^verbatim>\<open>48.158967, 11.490981\<close>;
  \<^verbatim>\<open>48.155582, 11.493340\<close>; \<^verbatim>\<open>48.143296, 11.596526\<close>;
  \<^verbatim>\<open>48.173194, 11.555078\<close>; \<^verbatim>\<open>48.166302, 11.568141\<close> (latitude, longitude).
\<close>

definition LOCATIONS :: "Location list" where
  "LOCATIONS =
     [\<lparr>Longitude = Finite (6468847218715181 / 562949953421312),
       Latitude = Finite (6777772057367125 / 140737488355328)\<rparr>,
      \<lparr>Longitude = Finite (3235087608827651 / 281474976710656),
       Latitude = Finite (6777295660969043 / 140737488355328)\<rparr>,
      \<lparr>Longitude = Finite (3264131885774517 / 281474976710656),
       Latitude = Finite (6775566560187109 / 140737488355328)\<rparr>,
      \<lparr>Longitude = Finite (6504930621879627 / 562949953421312),
       Latitude = Finite (6779774329613957 / 140737488355328)\<rparr>,
      \<lparr>Longitude = Finite (3256142218560585 / 281474976710656),
       Latitude = Finite (1694701091711053 / 35184372088832)\<rparr>]"

subsection \<open>The distance utility\<close>

text \<open>\<^verbatim>\<open>math.Pow(math.Sin(theta/2), 2)\<close>\<close>

definition hsin :: "float64_ops \<Rightarrow> float64 \<Rightarrow> float64" where
  "hsin fp theta = math_Pow fp (math_Sin fp (f64_quo fp theta (Finite 2))) (Finite 2)"

text \<open>
  \<^verbatim>\<open>Distance\<close>, operation by operation in the order in which Go evaluates the
  expressions: \<^verbatim>\<open>l1.Latitude * math.Pi / 180\<close> is a product divided by 180,
  \<^verbatim>\<open>math.Cos(la1)*math.Cos(la2)*hsin(lo2-lo1)\<close> multiplies from the left, and
  \<^verbatim>\<open>2 * r * math.Asin(math.Sqrt(h))\<close> is \<^verbatim>\<open>(2 * r)\<close> times the arc sine.
  Each operation is taken on its own, as the source writes it; a target on which the
  compiler fuses a product and a sum into one operation is not covered.
\<close>

definition Distance :: "float64_ops \<Rightarrow> Location \<Rightarrow> Location \<Rightarrow> float64" where
  "Distance fp l1 l2 =
     (let la1 = f64_quo fp (f64_mul fp (Latitude l1) math_Pi) (Finite 180);
          lo1 = f64_quo fp (f64_mul fp (Longitude l1) math_Pi) (Finite 180);
          la2 = f64_quo fp (f64_mul fp (Latitude l2) math_Pi) (Finite 180);
          lo2 = f64_quo fp (f64_mul fp (Longitude l2) math_Pi) (Finite 180);
          r = Finite 6378100;
          h = f64_add fp (hsin fp (f64_sub fp la2 la1))
                (f64_mul fp (f64_mul fp (math_Cos fp la1) (math_Cos fp la2))
                   (hsin fp (f64_sub fp lo2 lo1)))
      in f64_mul fp (f64_mul fp (Finite 2) r) (math_Asin fp (math_Sqrt fp h)))"

subsection \<open>Allow-list and parser\<close>

text \<open>The \<^verbatim>\<open>range\<close> loop of \<^verbatim>\<open>isAllowed\<close>, with its early return.\<close>

fun isAllowed_loop :: "string list \<Rightarrow> string \<Rightarrow> bool" where
  "isAllowed_loop [] e = False"
| "isAllowed_loop (a # as) e = (if a = e then True else isAllowed_loop as e)"

definition isAllowed :: "string \<Rightarrow> bool" where
  "isAllowed e = isAllowed_loop ALLOWED_USERS e"

text \<open>
  \<^verbatim>\<open>strings.ToLower\<close> maps Unicode code points and is a parameter of the model.
\<close>

definition to_lower_letters :: "(string \<Rightarrow> string) \<Rightarrow> string \<Rightarrow> string" where
  "to_lower_letters strings_ToLower s = (let ret = strings_ToLower s in ret)"

definition invalid_update_id :: go_error where
  "invalid_update_id =
     errors_New ''invalid update id of 0 indicates failure to parse incoming update''"

text \<open>
  \<^verbatim>\<open>json.NewDecoder(r.Body).Decode(&update)\<close> is the parameter \<open>decode\<close>: it
  yields the decoder's error or the populated structure. The function returns
  \<^verbatim>\<open>(nil, err)\<close> as \<^term>\<open>Inl err\<close> and \<^verbatim>\<open>(&update, nil)\<close> as \<^term>\<open>Inr update\<close>.
\<close>

definition parseTelegramRequest :: "(string \<Rightarrow> go_error + Update) \<Rightarrow> string \<Rightarrow> go_error + Update" where
  "parseTelegramRequest decode body =
     (case decode body of
        Inl err \<Rightarrow> Inl err
      | Inr update \<Rightarrow>
          if UpdateId update = 0 then Inl invalid_update_id
          else Inr update)"

subsection \<open>String literals\<close>

text \<open>
  The Cyrillic string literals of the source, as their UTF-8 bytes.
\<close>

text \<open>The instructions sent on /start (\<^verbatim>\<open>"Prisylaj mne svoju lokaciju. ... /unlock =)"\<close>).\<close>

definition text_instructions :: string where
  "text_instructions = [
    CHR 0xD0, CHR 0x9F, CHR 0xD1, CHR 0x80, CHR 0xD0, CHR 0xB8, CHR 0xD1, CHR 0x81, CHR 0xD1,
    CHR 0x8B, CHR 0xD0, CHR 0xBB, CHR 0xD0, CHR 0xB0, CHR 0xD0, CHR 0xB9, CHR 0x20, CHR 0xD0,
    CHR 0xBC, CHR 0xD0, CHR 0xBD, CHR 0xD0, CHR 0xB5, CHR 0x20, CHR 0xD1, CHR 0x81, CHR 0xD0,
    CHR 0xB2, CHR 0xD0, CHR 0xBE, CHR 0xD1, CHR 0x8E, CHR 0x20, CHR 0xD0, CHR 0xBB, CHR 0xD0,
    CHR 0xBE, CHR 0xD0, CHR 0xBA, CHR 0xD0, CHR 0xB0, CHR 0xD1, CHR 0x86, CHR 0xD0, CHR 0xB8,
    CHR 0xD1, CHR 0x8E, CHR 0x2E, CHR 0x20, CHR 0xD0, CHR 0x95, CHR 0xD1, CHR 0x81, CHR 0xD0,
    CHR 0xBB, CHR 0xD0, CHR 0xB8, CHR 0x20, CHR 0xD1, CHR 0x82, CHR 0xD1, CHR 0x8B, CHR 0x20,
    CHR 0xD0, CHR 0xB1, CHR 0xD1, CHR 0x83, CHR 0xD0, CHR 0xB4, CHR 0xD0, CHR 0xB5, CHR 0xD1,
    CHR 0x88, CHR 0xD1, CHR 0x8C, CHR 0x20, CHR 0xD0, CHR 0xBE, CHR 0xD1, CHR 0x82, CHR 0xD0,
    CHR 0xBD, CHR 0xD0, CHR 0xBE, CHR 0xD1, CHR 0x81, CHR 0xD0, CHR 0xB8, CHR 0xD1, CHR 0x82,
    CHR 0xD0, CHR 0xB5, CHR 0xD0, CHR 0xBB, CHR 0xD1, CHR 0x8C, CHR 0xD0, CHR 0xBD, CHR 0xD0,
    CHR 0xBE, CHR 0x20, CHR 0xD0, CHR 0xB1, CHR 0xD0, CHR 0xBB, CHR 0xD0, CHR 0xB8, CHR 0xD0,
    CHR 0xB7, CHR 0xD0, CHR 0xBA, CHR 0xD0, CHR 0xBE, CHR 0x20, CHR 0xD0, CHR 0xBA, CHR 0x20,
    CHR 0xD1, CHR 0x80, CHR 0xD0, CHR 0xB0, CHR 0xD1, CHR 0x81, CHR 0xD0, CHR 0xBF, CHR 0xD0,
    CHR 0xBE, CHR 0xD0, CHR 0xBB, CHR 0xD0, CHR 0xBE, CHR 0xD0, CHR 0xB6, CHR 0xD0, CHR 0xB5,
    CHR 0xD0, CHR 0xBD, CHR 0xD0, CHR 0xB8, CHR 0xD1, CHR 0x8E, CHR 0x20, CHR 0xD0, CHR 0xBF,
    CHR 0xD0, CHR 0xBE, CHR 0xD0, CHR 0xB4, CHR 0xD1, CHR 0x81, CHR 0xD0, CHR 0xBA, CHR 0xD0,
    CHR 0xB0, CHR 0xD0, CHR 0xB7, CHR 0xD0, CHR 0xBA, CHR 0xD0, CHR 0xB8, CHR 0x2C, CHR 0x20,
    CHR 0xD1, CHR 0x8F, CHR 0x20, CHR 0xD0, CHR 0xB4, CHR 0xD0, CHR 0xB0, CHR 0xD0, CHR 0xBC,
    CHR 0x20, CHR 0xD1, CHR 0x82, CHR 0xD0, CHR 0xB5, CHR 0xD0, CHR 0xB1, CHR 0xD0, CHR 0xB5,
    CHR 0x20, CHR 0xD1, CHR 0x82, CHR 0xD0, CHR 0xBE, CHR 0xD1, CHR 0x87, CHR 0xD0, CHR 0xBD,
    CHR 0xD1, CHR 0x8B, CHR 0xD0, CHR 0xB5, CHR 0x20, CHR 0xD0, CHR 0xBA, CHR 0xD0, CHR 0xBE,
    CHR 0xD0, CHR 0xBE, CHR 0xD1, CHR 0x80, CHR 0xD0, CHR 0xB4, CHR 0xD0, CHR 0xB8, CHR 0xD0,
    CHR 0xBD, CHR 0xD0, CHR 0xB0, CHR 0xD1, CHR 0x82, CHR 0xD1, CHR 0x8B, CHR 0x21, CHR 0x0A,
    CHR 0xD0, CHR 0xA3, CHR 0x20, CHR 0xD0, CHR 0xBC, CHR 0xD0, CHR 0xB5, CHR 0xD0, CHR 0xBD,
    CHR 0xD1, CHR 0x8F, CHR 0x20, CHR 0xD0, CHR 0xB5, CHR 0xD1, CHR 0x81, CHR 0xD1, CHR 0x82,
    CHR 0xD1, CHR 0x8C, CHR 0x20, CHR 0xD1, CHR 0x82, CHR 0xD0, CHR 0xB0, CHR 0xD0, CHR 0xBA,
    CHR 0x20, CHR 0xD0, CHR 0xB6, CHR 0xD0, CHR 0xB5, CHR 0x20, CHR 0xD0, CHR 0xBA, CHR 0xD0,
    CHR 0xBE, CHR 0xD0, CHR 0xBC, CHR 0xD0, CHR 0xB0, CHR 0xD0, CHR 0xBD, CHR 0xD0, CHR 0xB4,
    CHR 0xD0, CHR 0xB0, CHR 0x20, CHR 0x2F, CHR 0x75, CHR 0x6E, CHR 0x6C, CHR 0x6F, CHR 0x63,
    CHR 0x6B, CHR 0x20, CHR 0x3D, CHR 0x29]"

text \<open>The supervisor notice on /start.\<close>

definition text_started :: string where
  "text_started = [
    CHR 0xD0, CHR 0xA1, CHR 0xD0, CHR 0xBE, CHR 0xD0, CHR 0xBD, CHR 0xD1, CHR 0x8F, CHR 0x20,
    CHR 0xD0, CHR 0xBD, CHR 0xD0, CHR 0xB0, CHR 0xD1, CHR 0x87, CHR 0xD0, CHR 0xB0, CHR 0xD0,
    CHR 0xBB, CHR 0xD0, CHR 0xB0, CHR 0x20, CHR 0xD0, CHR 0xB8, CHR 0xD1, CHR 0x81, CHR 0xD0,
    CHR 0xBA, CHR 0xD0, CHR 0xB0, CHR 0xD1, CHR 0x82, CHR 0xD1, CHR 0x8C, CHR 0x20, CHR 0xD0,
    CHR 0xBB, CHR 0xD0, CHR 0xBE, CHR 0xD0, CHR 0xBA, CHR 0xD0, CHR 0xB0, CHR 0xD1, CHR 0x86,
    CHR 0xD0, CHR 0xB8, CHR 0xD0, CHR 0xB8, CHR 0x21]"

text \<open>The passphrase prompt sent on /unlock.\<close>

definition text_password_prompt :: string where
  "text_password_prompt = [
    CHR 0xD0, CHR 0x9F, CHR 0xD0, CHR 0xB0, CHR 0xD1, CHR 0x80, CHR 0xD0, CHR 0xBE, CHR 0xD0,
    CHR 0xBB, CHR 0xD1, CHR 0x8C, CHR 0x3F]"

text \<open>The success message with the reward description.\<close>

definition text_reward :: string where
  "text_reward = [
    CHR 0xD0, CHR 0x9C, CHR 0xD0, CHR 0xBE, CHR 0xD0, CHR 0xBB, CHR 0xD0, CHR 0xBE, CHR 0xD0,
    CHR 0xB4, CHR 0xD0, CHR 0xB5, CHR 0xD1, CHR 0x86, CHR 0x21, CHR 0x20, CHR 0xD0, CHR 0x92,
    CHR 0xD1, CHR 0x81, CHR 0xD0, CHR 0xB5, CHR 0x20, CHR 0xD0, CHR 0xB2, CHR 0xD0, CHR 0xB5,
    CHR 0xD1, CHR 0x80, CHR 0xD0, CHR 0xBD, CHR 0xD0, CHR 0xBE, CHR 0x21, CHR 0x0A, CHR 0xD0,
    CHR 0x92, CHR 0x20, CHR 0xD0, CHR 0xBA, CHR 0xD0, CHR 0xB0, CHR 0xD1, CHR 0x87, CHR 0xD0,
    CHR 0xB5, CHR 0xD1, CHR 0x81, CHR 0xD1, CHR 0x82, CHR 0xD0, CHR 0xB2, CHR 0xD0, CHR 0xB5,
    CHR 0x20, CHR 0xD0, CHR 0xBF, CHR 0xD1, CHR 0x80, CHR 0xD0, CHR 0xB8, CHR 0xD0, CHR 0xB7,
    CHR 0xD0, CHR 0xB0, CHR 0x20, CHR 0xD0, CHR 0xBC, CHR 0xD0, CHR 0xBE, CHR 0xD0, CHR 0xB3,
    CHR 0xD0, CHR 0xBB, CHR 0xD0, CHR 0xB8, CHR 0x20, CHR 0xD0, CHR 0xBF, CHR 0xD1, CHR 0x80,
    CHR 0xD0, CHR 0xB8, CHR 0xD0, CHR 0xB9, CHR 0xD1, CHR 0x82, CHR 0xD0, CHR 0xB8, CHR 0x2C,
    CHR 0x20, CHR 0xD0, CHR 0xBD, CHR 0xD0, CHR 0xBE, CHR 0x20, CHR 0xD0, CHR 0xBD, CHR 0xD0,
    CHR 0xB5, CHR 0x20, CHR 0xD0, CHR 0xBF, CHR 0xD1, CHR 0x80, CHR 0xD0, CHR 0xB8, CHR 0xD1,
    CHR 0x88, CHR 0xD0, CHR 0xBB, CHR 0xD0, CHR 0xB8, CHR 0x3A, CHR 0x0A, CHR 0x31, CHR 0x2E,
    CHR 0x20, CHR 0xD0, CHR 0x9F, CHR 0xD0, CHR 0xBE, CHR 0xD0, CHR 0xB5, CHR 0xD0, CHR 0xB7,
    CHR 0xD0, CHR 0xB4, CHR 0xD0, CHR 0xBA, CHR 0xD0, CHR 0xB0, CHR 0x20, CHR 0xD0, CHR 0xB2,
    CHR 0x20, CHR 0xD0, CHR 0x90, CHR 0xD0, CHR 0xB2, CHR 0xD1, CHR 0x81, CHR 0xD1, CHR 0x82,
    CHR 0xD1, CHR 0x80, CHR 0xD0, CHR 0xB8, CHR 0xD1, CHR 0x8E, CHR 0x20, CHR 0xD0, CHR 0xBD,
    CHR 0xD0, CHR 0xB0, CHR 0x20, CHR 0xD0, CHR 0xB2, CHR 0xD0, CHR 0xB8, CHR 0xD0, CHR 0xBA,
    CHR 0xD0, CHR 0xB5, CHR 0xD0, CHR 0xBD, CHR 0xD0, CHR 0xB4, CHR 0x2E, CHR 0x20, CHR 0xD0,
    CHR 0x9D, CHR 0xD0, CHR 0xBE, CHR 0x20, CHR 0xD0, CHR 0xBE, CHR 0xD0, CHR 0xBD, CHR 0xD0,
    CHR 0xB0, CHR 0x20, CHR 0xD0, CHR 0xBF, CHR 0xD0, CHR 0xBE, CHR 0xD1, CHR 0x87, CHR 0xD0,
    CHR 0xB5, CHR 0xD0, CHR 0xBC, CHR 0xD1, CHR 0x83, CHR 0x2D, CHR 0xD1, CHR 0x82, CHR 0xD0,
    CHR 0xBE, CHR 0x20, CHR 0xD0, CHR 0xB2, CHR 0xD0, CHR 0xB2, CHR 0xD0, CHR 0xBE, CHR 0xD0,
    CHR 0xB4, CHR 0xD0, CHR 0xB8, CHR 0xD1, CHR 0x82, CHR 0x20, CHR 0xD0, CHR 0xBB, CHR 0xD0,
    CHR 0xBE, CHR 0xD0, CHR 0xBA, CHR 0xD0, CHR 0xB4, CHR 0xD0, CHR 0xB0, CHR 0xD1, CHR 0x83,
    CHR 0xD0, CHR 0xBD, CHR 0x2E, CHR 0x0A, CHR 0x32, CHR 0x2E, CHR 0x20, CHR 0xD0, CHR 0x9F,
    CHR 0xD0, CHR 0xBE, CHR 0xD1, CHR 0x85, CHR 0xD0, CHR 0xBE, CHR 0xD0, CHR 0xB4, CHR 0x20,
    CHR 0xD0, CHR 0xBD, CHR 0xD0, CHR 0xB0, CHR 0x20, CHR 0xD0, CHR 0xA9, CHR 0xD0, CHR 0xB5,
    CHR 0xD0, CHR 0xBB, CHR 0xD0, CHR 0xBA, CHR 0xD1, CHR 0x83, CHR 0xD0, CHR 0xBD, CHR 0xD1,
    CHR 0x87, CHR 0xD0, CHR 0xB8, CHR 0xD0, CHR 0xBA, CHR 0xD0, CHR 0xB0, CHR 0x2E, CHR 0x20,
    CHR 0xD0, CHR 0x9D, CHR 0xD0, CHR 0xBE, CHR 0x20, CHR 0xD0, CHR 0xBA, CHR 0xD1, CHR 0x82,
    CHR 0xD0, CHR 0xBE, CHR 0x2D, CHR 0xD1, CHR 0x82, CHR 0xD0, CHR 0xBE, CHR 0x20, CHR 0xD0,
    CHR 0xBF, CHR 0xD1, CHR 0x80, CHR 0xD0, CHR 0xBE, CHR 0xD1, CHR 0x89, CHR 0xD0, CHR 0xB5,
    CHR 0xD0, CHR 0xBB, CHR 0xD0, CHR 0xBA, CHR 0xD0, CHR 0xB0, CHR 0xD0, CHR 0xBB, CHR 0x20,
    CHR 0xD0, CHR 0xB2, CHR 0xD1, CHR 0x81, CHR 0xD0, CHR 0xB5, CHR 0x20, CHR 0xD0, CHR 0xBF,
    CHR 0xD0, CHR 0xBE, CHR 0xD0, CHR 0xBB, CHR 0xD0, CHR 0xB8, CHR 0xD0, CHR 0xBC, CHR 0xD0,
    CHR 0xB5, CHR 0xD1, CHR 0x80, CHR 0xD1, CHR 0x8B, CHR 0x20, CHR 0x3D, CHR 0x28, CHR 0x2E,
    CHR 0x0A, CHR 0x33, CHR 0x2E, CHR 0x20, CHR 0xD0, CHR 0x9A, CHR 0xD0, CHR 0xB0, CHR 0xD1,
    CHR 0x80, CHR 0xD1, CHR 0x82, CHR 0xD1, CHR 0x8B, CHR 0x20, CHR 0xD1, CHR 0x81, CHR 0x20,
    CHR 0xD0, CHR 0xBF, CHR 0xD0, CHR 0xBE, CHR 0xD0, CHR 0xBA, CHR 0xD0, CHR 0xB5, CHR 0xD0,
    CHR 0xBC, CHR 0xD0, CHR 0xBE, CHR 0xD0, CHR 0xBD, CHR 0xD0, CHR 0xB0, CHR 0xD0, CHR 0xBC,
    CHR 0xD0, CHR 0xB8, CHR 0x20, CHR 0xD0, CHR 0xBD, CHR 0xD0, CHR 0xB0, CHR 0x20, CHR 0xD0,
    CHR 0xB8, CHR 0xD1, CHR 0x81, CHR 0xD0, CHR 0xBF, CHR 0xD0, CHR 0xB0, CHR 0xD0, CHR 0xBD,
    CHR 0xD1, CHR 0x81, CHR 0xD0, CHR 0xBA, CHR 0xD0, CHR 0xBE, CHR 0xD0, CHR 0xBC, CHR 0x2E,
    CHR 0x20, CHR 0xD0, CHR 0x9D, CHR 0xD0, CHR 0xBE, CHR 0x20, CHR 0xD0, CHR 0xBE, CHR 0xD0,
    CHR 0xBD, CHR 0xD0, CHR 0xB8, CHR 0x20, CHR 0xD1, CHR 0x83, CHR 0x20, CHR 0xD1, CHR 0x82,
    CHR 0xD0, CHR 0xB5, CHR 0xD0, CHR 0xB1, CHR 0xD1, CHR 0x8F, CHR 0x20, CHR 0xD1, CHR 0x83,
    CHR 0xD0, CHR 0xB6, CHR 0xD0, CHR 0xB5, CHR 0x20, CHR 0xD0, CHR 0xB5, CHR 0xD1, CHR 0x81,
    CHR 0xD1, CHR 0x82, CHR 0xD1, CHR 0x8C, CHR 0x2E, CHR 0x0A, CHR 0x0A, CHR 0x0A, CHR 0x0A,
    CHR 0xD0, CHR 0x9D, CHR 0xD0, CHR 0xBE, CHR 0x20, CHR 0xD0, CHR 0xB7, CHR 0xD0, CHR 0xB0,
    CHR 0xD1, CHR 0x82, CHR 0xD0, CHR 0xBE, CHR 0x20, CHR 0xD0, CHR 0xBF, CHR 0xD1, CHR 0x80,
    CHR 0xD0, CHR 0xB8, CHR 0xD1, CHR 0x88, CHR 0xD0, CHR 0xB5, CHR 0xD0, CHR 0xBB, CHR 0x3A,
    CHR 0x20, CHR 0xD0, CHR 0xB1, CHR 0xD0, CHR 0xB5, CHR 0xD1, CHR 0x81, CHR 0xD1, CHR 0x81,
    CHR 0xD1, CHR 0x80, CHR 0xD0, CHR 0xBE, CHR 0xD1, CHR 0x87, CHR 0xD0, CHR 0xBD, CHR 0xD1,
    CHR 0x8B, CHR 0xD0, CHR 0xB9, CHR 0x20, CHR 0x72, CHR 0x65, CHR 0x63, CHR 0x68, CHR 0x61,
    CHR 0x72, CHR 0x67, CHR 0x65, CHR 0x20, CHR 0x64, CHR 0x61, CHR 0x79, CHR 0x20, CHR 0x6F,
    CHR 0x6E, CHR 0x20, CHR 0x64, CHR 0x65, CHR 0x6D, CHR 0x61, CHR 0x6E, CHR 0x64, CHR 0x2E,
    CHR 0x20, CHR 0xD0, CHR 0x9F, CHR 0xD1, CHR 0x80, CHR 0xD0, CHR 0xB5, CHR 0xD0, CHR 0xB4,
    CHR 0xD0, CHR 0xBB, CHR 0xD0, CHR 0xBE, CHR 0xD0, CHR 0xB6, CHR 0xD0, CHR 0xB5, CHR 0xD0,
    CHR 0xBD, CHR 0xD0, CHR 0xB8, CHR 0xD0, CHR 0xB5, CHR 0x20, CHR 0xD0, CHR 0xBE, CHR 0xD1,
    CHR 0x82, CHR 0xD0, CHR 0xB2, CHR 0xD0, CHR 0xB5, CHR 0xD0, CHR 0xB7, CHR 0xD1, CHR 0x82,
    CHR 0xD0, CHR 0xB8, CHR 0x20, CHR 0xD1, CHR 0x82, CHR 0xD0, CHR 0xB5, CHR 0xD0, CHR 0xB1,
    CHR 0xD1, CHR 0x8F, CHR 0x2C, CHR 0x20, CHR 0xD0, CHR 0xBA, CHR 0xD1, CHR 0x83, CHR 0xD0,
    CHR 0xB4, CHR 0xD0, CHR 0xB0, CHR 0x20, CHR 0xD1, CHR 0x82, CHR 0xD1, CHR 0x8B, CHR 0x20,
    CHR 0xD0, CHR 0xB7, CHR 0xD0, CHR 0xB0, CHR 0xD1, CHR 0x85, CHR 0xD0, CHR 0xBE, CHR 0xD1,
    CHR 0x87, CHR 0xD0, CHR 0xB5, CHR 0xD1, CHR 0x88, CHR 0xD1, CHR 0x8C, CHR 0x2C, CHR 0x20,
    CHR 0xD0, CHR 0xBD, CHR 0xD0, CHR 0xB0, CHR 0x20, CHR 0x31, CHR 0x20, CHR 0xD0, CHR 0xB4,
    CHR 0xD0, CHR 0xB5, CHR 0xD0, CHR 0xBD, CHR 0xD1, CHR 0x8C, CHR 0x2E, CHR 0x20, CHR 0xD0,
    CHR 0x98, CHR 0xD1, CHR 0x81, CHR 0xD0, CHR 0xBF, CHR 0xD0, CHR 0xBE, CHR 0xD0, CHR 0xBB,
    CHR 0xD1, CHR 0x8C, CHR 0xD0, CHR 0xB7, CHR 0xD1, CHR 0x83, CHR 0xD0, CHR 0xB9, CHR 0x20,
    CHR 0xD0, CHR 0xB5, CHR 0xD0, CHR 0xB3, CHR 0xD0, CHR 0xBE, CHR 0x2C, CHR 0x20, CHR 0xD0,
    CHR 0xBA, CHR 0xD0, CHR 0xBE, CHR 0xD0, CHR 0xB3, CHR 0xD0, CHR 0xB4, CHR 0xD0, CHR 0xB0,
    CHR 0x20, CHR 0xD1, CHR 0x82, CHR 0xD0, CHR 0xB5, CHR 0xD0, CHR 0xB1, CHR 0xD0, CHR 0xB5,
    CHR 0x20, CHR 0xD0, CHR 0xB2, CHR 0xD0, CHR 0xB7, CHR 0xD0, CHR 0xB4, CHR 0xD1, CHR 0x83,
    CHR 0xD0, CHR 0xBC, CHR 0xD0, CHR 0xB0, CHR 0xD0, CHR 0xB5, CHR 0xD1, CHR 0x82, CHR 0xD1,
    CHR 0x81, CHR 0xD1, CHR 0x8F, CHR 0x2E]"

text \<open>The supervisor notice of success.\<close>

definition text_solved :: string where
  "text_solved = [
    CHR 0xD0, CHR 0xA1, CHR 0xD0, CHR 0xBE, CHR 0xD0, CHR 0xBD, CHR 0xD1, CHR 0x8F, CHR 0x20,
    CHR 0xD1, CHR 0x81, CHR 0xD0, CHR 0xBF, CHR 0xD1, CHR 0x80, CHR 0xD0, CHR 0xB0, CHR 0xD0,
    CHR 0xB2, CHR 0xD0, CHR 0xB8, CHR 0xD0, CHR 0xBB, CHR 0xD0, CHR 0xB0, CHR 0xD1, CHR 0x81,
    CHR 0xD1, CHR 0x8C, CHR 0x21]"

text \<open>The "check this place" text.\<close>

definition text_check_place :: string where
  "text_check_place = [
    CHR 0xD0, CHR 0x9F, CHR 0xD1, CHR 0x80, CHR 0xD0, CHR 0xBE, CHR 0xD0, CHR 0xB2, CHR 0xD0,
    CHR 0xB5, CHR 0xD1, CHR 0x80, CHR 0xD1, CHR 0x8C, CHR 0x20, CHR 0xD1, CHR 0x8D, CHR 0xD1,
    CHR 0x82, CHR 0xD0, CHR 0xBE, CHR 0x20, CHR 0xD0, CHR 0xBC, CHR 0xD0, CHR 0xB5, CHR 0xD1,
    CHR 0x81, CHR 0xD1, CHR 0x82, CHR 0xD0, CHR 0xBE]"

text \<open>The format string of the supervisor notice of a hint, up to its \<^verbatim>\<open>%d\<close>; the rest is \<^verbatim>\<open>!\<close>.\<close>

definition text_checking_prefix :: string where
  "text_checking_prefix = [
    CHR 0xD0, CHR 0xA1, CHR 0xD0, CHR 0xBE, CHR 0xD0, CHR 0xBD, CHR 0xD1, CHR 0x8F, CHR 0x20,
    CHR 0xD0, CHR 0xBF, CHR 0xD1, CHR 0x80, CHR 0xD0, CHR 0xBE, CHR 0xD0, CHR 0xB2, CHR 0xD0,
    CHR 0xB5, CHR 0xD1, CHR 0x80, CHR 0xD1, CHR 0x8F, CHR 0xD0, CHR 0xB5, CHR 0xD1, CHR 0x82,
    CHR 0x20]"

text \<open>The "no hints nearby" text.\<close>

definition text_no_hints :: string where
  "text_no_hints = [
    CHR 0xD0, CHR 0x92, CHR 0xD0, CHR 0xB1, CHR 0xD0, CHR 0xBB, CHR 0xD0, CHR 0xB8, CHR 0xD0,
    CHR 0xB7, CHR 0xD0, CHR 0xB8, CHR 0x20, CHR 0xD0, CHR 0xBD, CHR 0xD0, CHR 0xB5, CHR 0xD1,
    CHR 0x82, CHR 0x20, CHR 0xD0, CHR 0xBF, CHR 0xD0, CHR 0xBE, CHR 0xD0, CHR 0xB4, CHR 0xD1,
    CHR 0x81, CHR 0xD0, CHR 0xBA, CHR 0xD0, CHR 0xB0, CHR 0xD0, CHR 0xB7, CHR 0xD0, CHR 0xBE,
    CHR 0xD0, CHR 0xBA]"

text \<open>The rejection text ("this passphrase does not fit").\<close>

definition text_wrong_password :: string where
  "text_wrong_password = [
    CHR 0xD0, CHR 0xAD, CHR 0xD1, CHR 0x82, CHR 0xD0, CHR 0xBE, CHR 0xD1, CHR 0x82, CHR 0x20,
    CHR 0xD0, CHR 0xBF, CHR 0xD0, CHR 0xB0, CHR 0xD1, CHR 0x80, CHR 0xD0, CHR 0xBE, CHR 0xD0,
    CHR 0xBB, CHR 0xD1, CHR 0x8C, CHR 0x20, CHR 0xD0, CHR 0xBD, CHR 0xD0, CHR 0xB5, CHR 0x20,
    CHR 0xD0, CHR 0xBF, CHR 0xD0, CHR 0xBE, CHR 0xD0, CHR 0xB4, CHR 0xD1, CHR 0x85, CHR 0xD0,
    CHR 0xBE, CHR 0xD0, CHR 0xB4, CHR 0xD0, CHR 0xB8, CHR 0xD1, CHR 0x82, CHR 0x20, CHR 0x3D,
    CHR 0x28]"

text \<open>The format string of the supervisor notice of a rejected text, up to its \<^verbatim>\<open>%s\<close>; the rest is \<^verbatim>\<open>!\<close>.\<close>

definition text_entered_prefix :: string where
  "text_entered_prefix = [
    CHR 0xD0, CHR 0xA1, CHR 0xD0, CHR 0xBE, CHR 0xD0, CHR 0xBD, CHR 0xD1, CHR 0x8F, CHR 0x20,
    CHR 0xD0, CHR 0xB2, CHR 0xD0, CHR 0xB2, CHR 0xD0, CHR 0xB5, CHR 0xD0, CHR 0xBB, CHR 0xD0,
    CHR 0xB0, CHR 0x20]"

subsection \<open>Outbound senders\<close>

text \<open>
  Each sender posts one form, appends the request to the list of requests made so far and
  returns Go's pair \<^verbatim>\<open>(string, error)\<close>. When reading the body fails the source
  executes \<^verbatim>\<open>return "", err\<close>, where \<^verbatim>\<open>err\<close> is the variable of
  \<^verbatim>\<open>http.PostForm\<close>, which is \<^verbatim>\<open>nil\<close> on that path.
\<close>

definition sendTextMessage ::
    "net \<Rightarrow> int \<Rightarrow> string \<Rightarrow> request list \<Rightarrow> (string \<times> go_error option) \<times> request list" where
  "sendTextMessage http chatId text sent =
     (let req = PostForm telegramApiSend
                  [(''chat_id'', Str (Itoa chatId)),
                   (''text'', Str text)]
      in case http sent req of
           PostErr err \<Rightarrow> (([], Some err), sent @ [req])
         | PostOk bodyBytes errRead \<Rightarrow>
             (let err = None in
              case errRead of
                Some e \<Rightarrow> (([], err), sent @ [req])
              | None \<Rightarrow> ((bodyBytes, None), sent @ [req])))"

definition sendLocationMessage ::
    "net \<Rightarrow> int \<Rightarrow> Location \<Rightarrow> request list \<Rightarrow> (string \<times> go_error option) \<times> request list" where
  "sendLocationMessage http chatId l sent =
     (let req = PostForm telegramApiSendLocation
                  [(''chat_id'', Str (Itoa chatId)),
                   (''longitude'', FormatFloat_E (Longitude l)),
                   (''latitude'', FormatFloat_E (Latitude l)),
                   (''horizontal_accuracy'', Str ''2'')]
      in case http sent req of
           PostErr err \<Rightarrow> (([], Some err), sent @ [req])
         | PostOk bodyBytes errRead \<Rightarrow>
             (let err = None in
              case errRead of
                Some e \<Rightarrow> (([], err), sent @ [req])
              | None \<Rightarrow> ((bodyBytes, None), sent @ [req])))"

subsection \<open>The handler\<close>

text \<open>
  The body of \<^verbatim>\<open>for t, l := range LOCATIONS\<close>, run over the remaining candidates
  with their indices; \<open>found\<close> is the loop's flag and \<open>sent\<close> the requests made
  so far. The results of the senders are only logged.
\<close>

fun locations_loop ::
    "net \<Rightarrow> float64_ops \<Rightarrow> Update \<Rightarrow> (nat \<times> Location) list \<Rightarrow> bool \<Rightarrow> request list
       \<Rightarrow> bool \<times> request list" where
  "locations_loop http fp update [] found sent = (found, sent)"
| "locations_loop http fp update ((t, l) # rest) found sent =
     (if f64_less (Distance fp l (Message_Location (Update_Message update))) (Finite 2000) then
        (let (res1, sent1) =
               sendTextMessage http (Chat_Id (Message_Chat (Update_Message update)))
                 text_check_place sent;
             (res2, sent2) =
               sendTextMessage http ANTON_CHAT_ID
                 (text_checking_prefix @ Itoa (int t) @ ''!'') sent1;
             (res3, sent3) =
               sendLocationMessage http (Chat_Id (Message_Chat (Update_Message update))) l sent2
         in locations_loop http fp update rest True sent3)
      else locations_loop http fp update rest found sent)"

text \<open>
  \<^verbatim>\<open>HandleTelegramWebHook\<close> returns nothing; the model returns the outbound requests
  it made, in order. \<^verbatim>\<open>update.Message.Location.Latitude > 0\<close> is the comparison of
  0 with the latitude.
\<close>

definition HandleTelegramWebHook ::
    "net \<Rightarrow> (string \<Rightarrow> string) \<Rightarrow> float64_ops \<Rightarrow> (string \<Rightarrow> go_error + Update) \<Rightarrow> string
       \<Rightarrow> request list" where
  "HandleTelegramWebHook http strings_ToLower fp decode body =
     (case parseTelegramRequest decode body of
        Inl err \<Rightarrow> []
      | Inr update \<Rightarrow>
          if \<not> isAllowed (Chat_Username (Message_Chat (Update_Message update))) then []
          else if Message_Text (Update_Message update) = ''/start'' then
            (let (res1, sent1) =
                   sendTextMessage http (Chat_Id (Message_Chat (Update_Message update)))
                     text_instructions [];
                 (res2, sent2) = sendTextMessage http ANTON_CHAT_ID text_started sent1
             in sent2)
          else if Message_Text (Update_Message update) = ''/unlock'' then
            (let (res1, sent1) =
                   sendTextMessage http (Chat_Id (Message_Chat (Update_Message update)))
                     text_password_prompt []
             in sent1)
          else if to_lower_letters strings_ToLower (Message_Text (Update_Message update)) = ''afsio'' then
            (let (res1, sent1) =
                   sendTextMessage http (Chat_Id (Message_Chat (Update_Message update)))
                     text_reward [];
                 (res2, sent2) = sendTextMessage http ANTON_CHAT_ID text_solved sent1
             in sent2)
          else if f64_less (Finite 0) (Latitude (Message_Location (Update_Message update))) then
            (let (found, sent1) = locations_loop http fp update (enumerate 0 LOCATIONS) False []
             in if \<not> found then
                  (let (res1, sent2) =
                         sendTextMessage http (Chat_Id (Message_Chat (Update_Message update)))
                           text_no_hints sent1
                   in sent2)
                else sent1)
          else
            (let (res1, sent1) =
                   sendTextMessage http (Chat_Id (Message_Chat (Update_Message update)))
                     text_wrong_password [];
                 (res2, sent2) =
                   sendTextMessage http ANTON_CHAT_ID
                     (text_entered_prefix @ Message_Text (Update_Message update) @ ''!'') sent1
             in sent2))"

section \<open>Variant 1: the celebration rotation (\<^verbatim>\<open>src/unnamed/part_000\<close>)\<close>

subsection \<open>Data model of variant 1\<close>

text \<open>
  \<^verbatim>\<open>Audio\<close>, \<^verbatim>\<open>Voice\<close>, \<^verbatim>\<open>Document\<close> and \<^verbatim>\<open>User\<close> are declared as in variant 2.
  A \<^verbatim>\<open>Chat\<close> has no username here and a \<^verbatim>\<open>Message\<close> no location, so these
  and the structures holding them get records of their own.
\<close>

record Chat_v1 =
  Chat_v1_Id :: int

record Message_v1 =
  Message_v1_Id :: int
  Message_v1_Text :: string
  Message_v1_Chat :: Chat_v1
  Message_v1_Audio :: Audio
  Message_v1_Voice :: Voice
  Message_v1_Document :: Document

record CallbackQuerry_v1 =
  CallbackQuerry_v1_Id :: string
  CallbackQuerry_v1_From :: User
  CallbackQuerry_v1_Data :: string
  CallbackQuerry_v1_Message :: Message_v1
  CallbackQuerry_v1_InlineMessageId :: string

record Update_v1 =
  UpdateId_v1 :: int
  Update_v1_Message :: Message_v1
  Update_v1_CallbackQuerry :: CallbackQuerry_v1

subsection \<open>String literals of variant 1\<close>

text \<open>
  The Cyrillic string literals of the source, as their UTF-8 bytes.
\<close>

text \<open>The welcome text sent on /start.\<close>

definition text_welcome :: string where
  "text_welcome = [
    CHR 0xD0, CHR 0x9F, CHR 0xD1, CHR 0x80, CHR 0xD0, CHR 0xB8, CHR 0xD0, CHR 0xB2, CHR 0xD0,
    CHR 0xB5, CHR 0xD1, CHR 0x82, CHR 0x2C, CHR 0x20, CHR 0xD0, CHR 0xBD, CHR 0xD0, CHR 0xB0,
    CHR 0xD0, CHR 0xB6, CHR 0xD0, CHR 0xB8, CHR 0xD0, CHR 0xBC, CHR 0xD0, CHR 0xB0, CHR 0xD0,
    CHR 0xB9, CHR 0x20, CHR 0xD0, CHR 0xBD, CHR 0xD0, CHR 0xB0, CHR 0x20, CHR 0xD0, CHR 0xBA,
    CHR 0xD0, CHR 0xBD, CHR 0xD0, CHR 0xBE, CHR 0xD0, CHR 0xBF, CHR 0xD0, CHR 0xBA, CHR 0xD1,
    CHR 0x83, CHR 0x20, CHR 0xD0, CHR 0xBF, CHR 0xD0, CHR 0xBE, CHR 0xD0, CHR 0xBB, CHR 0xD1,
    CHR 0x83, CHR 0xD1, CHR 0x87, CHR 0xD0, CHR 0xB8, CHR 0xD1, CHR 0x82, CHR 0xD1, CHR 0x8C,
    CHR 0x20, CHR 0xD0, CHR 0xBF, CHR 0xD0, CHR 0xBE, CHR 0xD0, CHR 0xB7, CHR 0xD0, CHR 0xB4,
    CHR 0xD1, CHR 0x80, CHR 0xD0, CHR 0xB0, CHR 0xD0, CHR 0xB2, CHR 0xD0, CHR 0xBB, CHR 0xD0,
    CHR 0xB5, CHR 0xD0, CHR 0xBD, CHR 0xD0, CHR 0xB8, CHR 0xD0, CHR 0xB5, CHR 0x20, CHR 0xD0,
    CHR 0xB8, CHR 0x20, CHR 0xD0, CHR 0xBA, CHR 0xD0, CHR 0xB0, CHR 0xD0, CHR 0xB9, CHR 0xD1,
    CHR 0x84, CHR 0xD1, CHR 0x83, CHR 0xD0, CHR 0xB9, CHR 0x21]"

text \<open>The label of the inline button ("get a celebration").\<close>

definition text_button :: string where
  "text_button = [
    CHR 0xD0, CHR 0x9F, CHR 0xD0, CHR 0xBE, CHR 0xD0, CHR 0xBB, CHR 0xD1, CHR 0x83, CHR 0xD1,
    CHR 0x87, CHR 0xD0, CHR 0xB8, CHR 0xD1, CHR 0x82, CHR 0xD1, CHR 0x8C, CHR 0x20, CHR 0xD0,
    CHR 0xBF, CHR 0xD0, CHR 0xBE, CHR 0xD0, CHR 0xB7, CHR 0xD0, CHR 0xB4, CHR 0xD1, CHR 0x80,
    CHR 0xD0, CHR 0xB0, CHR 0xD0, CHR 0xB2, CHR 0xD0, CHR 0xBB, CHR 0xD0, CHR 0xB5, CHR 0xD0,
    CHR 0xBD, CHR 0xD0, CHR 0xB8, CHR 0xD0, CHR 0xB5]"

text \<open>The only element of \<^verbatim>\<open>CELEBRATIONS\<close>.\<close>

definition text_celebration_0 :: string where
  "text_celebration_0 = [
    CHR 0xD0, CHR 0xA2, CHR 0xD0, CHR 0xB2, CHR 0xD0, CHR 0xBE, CHR 0xD0, CHR 0xB9, CHR 0x20,
    CHR 0xD0, CHR 0xB4, CHR 0xD1, CHR 0x80, CHR 0xD1, CHR 0x83, CHR 0xD0, CHR 0xB3, CHR 0x3A,
    CHR 0x20, CHR 0xD0, CHR 0x94, CHR 0xD1, CHR 0x80, CHR 0xD1, CHR 0x8E, CHR 0xD0, CHR 0xBD,
    CHR 0xD1, CHR 0x8F, CHR 0x0A, CHR 0xD0, CHR 0x9D, CHR 0xD0, CHR 0xB0, CHR 0x20, CHR 0xD0,
    CHR 0xB2, CHR 0xD0, CHR 0xBE, CHR 0xD0, CHR 0xBF, CHR 0xD1, CHR 0x80, CHR 0xD0, CHR 0xBE,
    CHR 0xD1, CHR 0x81, CHR 0x3A, CHR 0x20, CHR 0xD0, CHR 0xA7, CHR 0xD1, CHR 0x82, CHR 0xD0,
    CHR 0xBE, CHR 0x20, CHR 0xD0, CHR 0xB1, CHR 0xD1, CHR 0x8B, CHR 0x20, CHR 0xD1, CHR 0x82,
    CHR 0xD1, CHR 0x8B, CHR 0x20, CHR 0xD0, CHR 0xBF, CHR 0xD1, CHR 0x80, CHR 0xD0, CHR 0xB8,
    CHR 0xD0, CHR 0xB3, CHR 0xD0, CHR 0xBE, CHR 0xD1, CHR 0x82, CHR 0xD0, CHR 0xBE, CHR 0xD0,
    CHR 0xB2, CHR 0xD0, CHR 0xB8, CHR 0xD0, CHR 0xBB, CHR 0x2F, CHR 0xD0, CHR 0xB0, CHR 0x20,
    CHR 0xD0, CHR 0x9C, CHR 0xD0, CHR 0xB0, CHR 0xD1, CHR 0x88, CHR 0xD0, CHR 0xB5, CHR 0x20,
    CHR 0xD0, CHR 0xBD, CHR 0xD0, CHR 0xB0, CHR 0x20, CHR 0xD0, CHR 0xB7, CHR 0xD0, CHR 0xB0,
    CHR 0xD0, CHR 0xB2, CHR 0xD1, CHR 0x82, CHR 0xD1, CHR 0x80, CHR 0xD0, CHR 0xB0, CHR 0xD0,
    CHR 0xBA, CHR 0x3F, CHR 0x0A, CHR 0xD0, CHR 0x9E, CHR 0xD1, CHR 0x82, CHR 0xD0, CHR 0xB2,
    CHR 0xD0, CHR 0xB5, CHR 0xD1, CHR 0x82, CHR 0xD0, CHR 0xB8, CHR 0xD0, CHR 0xBB, CHR 0x28,
    CHR 0xD0, CHR 0xB0, CHR 0x29, CHR 0x3A, CHR 0x20, CHR 0xD0, CHR 0x9F, CHR 0xD0, CHR 0xB5,
    CHR 0xD0, CHR 0xBB, CHR 0xD1, CHR 0x8C, CHR 0xD0, CHR 0xBC, CHR 0xD0, CHR 0xB5, CHR 0xD1,
    CHR 0x88, CHR 0xD0, CHR 0xB8]"

definition CELEBRATIONS :: "string list" where
  "CELEBRATIONS = [text_celebration_0]"

definition ALLOWED_USERS_v1 :: "string list" where
  "ALLOWED_USERS_v1 = [''antonhulikau'', ''okalitova'', ''maffina95'']"

definition isAllowed_v1 :: "string \<Rightarrow> bool" where
  "isAllowed_v1 e = isAllowed_loop ALLOWED_USERS_v1 e"

definition parseTelegramRequest_v1 ::
    "(string \<Rightarrow> go_error + Update_v1) \<Rightarrow> string \<Rightarrow> go_error + Update_v1" where
  "parseTelegramRequest_v1 decode body =
     (case decode body of
        Inl err \<Rightarrow> Inl err
      | Inr update \<Rightarrow>
          if UpdateId_v1 update = 0 then Inl invalid_update_id
          else Inr update)"

subsection \<open>\<^verbatim>\<open>strconv.Atoi\<close>\<close>

text \<open>
  \<^verbatim>\<open>strconv.Atoi\<close> of the Go standard library for a 64-bit \<^verbatim>\<open>int\<close>, after
  \<^verbatim>\<open>ParseInt(s, 10, 0)\<close> and its documented contract: an optional sign followed by
  decimal digits. If the string is empty or contains invalid digits, the error is
  \<^verbatim>\<open>ErrSyntax\<close> and the returned value is 0; if the value cannot be represented by
  a signed 64-bit integer, the error is \<^verbatim>\<open>ErrRange\<close> and the returned value is the
  integer of maximum magnitude of the sign.

  \<^verbatim>\<open>ParseUint\<close> reads the digits from the left and gives up with the range error
  as soon as the number read so far no longer fits 64 bits, before it looks at the
  remaining bytes.
\<close>

datatype uint_result = SyntaxError | RangeError | Parsed nat

fun ParseUint_loop :: "string \<Rightarrow> nat \<Rightarrow> uint_result" where
  "ParseUint_loop [] n = Parsed n"
| "ParseUint_loop (c # s) n =
     (if \<not> (48 \<le> (of_char c :: nat) \<and> (of_char c :: nat) \<le> 57) then SyntaxError
      else if n \<ge> (2 ^ 64 - 1) div 10 + 1 then RangeError
      else
        let n1 = n * 10 + ((of_char c :: nat) - 48)
        in if n1 > 2 ^ 64 - 1 then RangeError
           else ParseUint_loop s n1)"

definition Atoi :: "string \<Rightarrow> int \<times> go_error option" where
  "Atoi s0 =
     (if s0 = [] then (0, Some ErrSyntax)
      else
        let neg = (hd s0 = CHR ''-'');
            s = (if hd s0 = CHR ''+'' \<or> hd s0 = CHR ''-'' then tl s0 else s0)
        in if s = [] then (0, Some ErrSyntax)
           else
             case ParseUint_loop s 0 of
               SyntaxError \<Rightarrow> (0, Some ErrSyntax)
             | RangeError \<Rightarrow>
                 if neg then (- (2 ^ 63), Some ErrRange) else (2 ^ 63 - 1, Some ErrRange)
             | Parsed un \<Rightarrow>
                 if \<not> neg \<and> un \<ge> 2 ^ 63 then (2 ^ 63 - 1, Some ErrRange)
                 else if neg \<and> un > 2 ^ 63 then (- (2 ^ 63), Some ErrRange)
                 else (if neg then - int un else int un, None))"

subsection \<open>Outbound senders of variant 1\<close>

definition sendStartTextMessage ::
    "net \<Rightarrow> int \<Rightarrow> string \<Rightarrow> request list \<Rightarrow> (string \<times> go_error option) \<times> request list" where
  "sendStartTextMessage http chatId text sent =
     (let fo = [[(''text'', text_button), (''callback_data'', ''0'')]];
          keyboard = [(''inline_keyboard'', [fo])];
          req = PostForm telegramApiSend
                  [(''chat_id'', Str (Itoa chatId)),
                   (''text'', Str text),
                   (''reply_markup'', json_Marshal keyboard)]
      in case http sent req of
           PostErr err \<Rightarrow> (([], Some err), sent @ [req])
         | PostOk bodyBytes errRead \<Rightarrow>
             (let err = None in
              case errRead of
                Some e \<Rightarrow> (([], err), sent @ [req])
              | None \<Rightarrow> ((bodyBytes, None), sent @ [req])))"

text \<open>
  The statements \<^verbatim>\<open>p += 1; if (p == len(CELEBRATIONS)) { p = 0; }\<close> of
  \<^verbatim>\<open>sendCelebrateMessage\<close>, over any phrase list.
\<close>

definition next_index :: "'a list \<Rightarrow> int \<Rightarrow> int" where
  "next_index phrases p = (let p = p + 1 in if p = int (length phrases) then 0 else p)"

text \<open>
  Indexing the array \<^verbatim>\<open>CELEBRATIONS[p]\<close> outside its bounds is a run-time panic,
  raised before anything is posted.
\<close>

datatype go_panic = index_out_of_range int nat

definition sendCelebrateMessage ::
    "net \<Rightarrow> int \<Rightarrow> int \<Rightarrow> int \<Rightarrow> request list \<Rightarrow>
       go_panic + ((string \<times> go_error option) \<times> request list)" where
  "sendCelebrateMessage http chatId messageId p sent =
     (if p < 0 \<or> int (length CELEBRATIONS) \<le> p
      then Inl (index_out_of_range p (length CELEBRATIONS))
      else
        let text = CELEBRATIONS ! nat p;
            p = next_index CELEBRATIONS p;
            fo = [[(''text'', text_button), (''callback_data'', Itoa p)]];
            keyboard = [(''inline_keyboard'', [fo])];
            req = PostForm telegramApiEdit
                    [(''chat_id'', Str (Itoa chatId)),
                     (''message_id'', Str (Itoa messageId)),
                     (''text'', Str text),
                     (''reply_markup'', json_Marshal keyboard)]
        in case http sent req of
             PostErr err \<Rightarrow> Inr (([], Some err), sent @ [req])
           | PostOk bodyBytes errRead \<Rightarrow>
               (let err = None in
                case errRead of
                  Some e \<Rightarrow> Inr (([], err), sent @ [req])
                | None \<Rightarrow> Inr ((bodyBytes, None), sent @ [req])))"

subsection \<open>The handler of variant 1\<close>

text \<open>
  The handler either runs to its end, having made the listed requests, or is aborted by
  a panic.
\<close>

datatype handler_result = Completed "request list" | Panicked go_panic "request list"

definition HandleTelegramWebHook_v1 ::
    "net \<Rightarrow> (string \<Rightarrow> go_error + Update_v1) \<Rightarrow> string \<Rightarrow> handler_result" where
  "HandleTelegramWebHook_v1 http decode body =
     (case parseTelegramRequest_v1 decode body of
        Inl err \<Rightarrow> Completed []
      | Inr update \<Rightarrow>
          if Message_v1_Text (Update_v1_Message update) = ''/start'' then
            (let (res1, sent1) =
                   sendStartTextMessage http (Chat_v1_Id (Message_v1_Chat (Update_v1_Message update)))
                     text_welcome []
             in Completed sent1)
          else if isAllowed_v1 (User_Username (CallbackQuerry_v1_From (Update_v1_CallbackQuerry update))) then
            (let p = fst (Atoi (CallbackQuerry_v1_Data (Update_v1_CallbackQuerry update)))
             in case sendCelebrateMessage http
                       (Chat_v1_Id (Message_v1_Chat (CallbackQuerry_v1_Message (Update_v1_CallbackQuerry update))))
                       (Message_v1_Id (CallbackQuerry_v1_Message (Update_v1_CallbackQuerry update)))
                       p [] of
                  Inl panic \<Rightarrow> Panicked panic []
                | Inr (res1, sent1) \<Rightarrow> Completed sent1)
          else Completed [])"

section \<open>Vocabulary of the properties\<close>

text \<open>The form a text message is posted as, and the form of a location message.\<close>

definition text_request :: "int \<Rightarrow> string \<Rightarrow> request" where
  "text_request chatId text =
     PostForm telegramApiSend [(''chat_id'', Str (Itoa chatId)), (''text'', Str text)]"

definition location_request :: "int \<Rightarrow> Location \<Rightarrow> request" where
  "location_request chatId l =
     PostForm telegramApiSendLocation
       [(''chat_id'', Str (Itoa chatId)),
        (''longitude'', FormatFloat_E (Longitude l)),
        (''latitude'', FormatFloat_E (Latitude l)),
        (''horizontal_accuracy'', Str ''2'')]"

text \<open>The notice to the supervisor chat that carries the list index of a candidate.\<close>

definition supervisor_notice :: "nat \<Rightarrow> request" where
  "supervisor_notice t =
     text_request ANTON_CHAT_ID (text_checking_prefix @ Itoa (int t) @ ''!'')"

text \<open>
  The three requests of one hint: the "check this place" text to the user, the notice to
  the supervisor with the candidate's index, the candidate's coordinates to the user.
\<close>

definition hint_requests :: "int \<Rightarrow> nat \<Rightarrow> Location \<Rightarrow> request list" where
  "hint_requests chatId t l =
     [text_request chatId text_check_place, supervisor_notice t, location_request chatId l]"

text \<open>
  The hints of all candidates of a list of indexed candidates, in list order, for a user
  chat and a supplied location: a candidate has a hint when the computed distance
  compares below 2000.
\<close>

definition hints_for ::
    "float64_ops \<Rightarrow> int \<Rightarrow> Location \<Rightarrow> (nat \<times> Location) list \<Rightarrow> request list" where
  "hints_for fp chatId probe tls =
     concat (map (\<lambda>(t, l). if f64_less (Distance fp l probe) (Finite 2000)
                           then hint_requests chatId t l else []) tls)"

text \<open>The form the edit of variant 1 is posted as, for the index shown.\<close>

definition celebrate_request :: "int \<Rightarrow> int \<Rightarrow> nat \<Rightarrow> request" where
  "celebrate_request chatId messageId i =
     PostForm telegramApiEdit
       [(''chat_id'', Str (Itoa chatId)),
        (''message_id'', Str (Itoa messageId)),
        (''text'', Str (CELEBRATIONS ! i)),
        (''reply_markup'',
           json_Marshal
             [(''inline_keyboard'',
               [[[(''text'', text_button),
                  (''callback_data'', Itoa (next_index CELEBRATIONS (int i)))]]])])]"

subsection \<open>An arithmetic for the concrete examples\<close>

text \<open>
  The arithmetic that does not round: every operation gives the exact result on finite
  values and NaN elsewhere, and the power takes the exponent as a natural number. It is
  one instance of the parameter and serves the concrete examples only.
\<close>

definition lift1 :: "(real \<Rightarrow> real) \<Rightarrow> float64 \<Rightarrow> float64" where
  "lift1 f x = (case x of Finite a \<Rightarrow> Finite (f a) | _ \<Rightarrow> NaN)"

definition lift2 :: "(real \<Rightarrow> real \<Rightarrow> real) \<Rightarrow> float64 \<Rightarrow> float64 \<Rightarrow> float64" where
  "lift2 f x y =
     (case x of
        Finite a \<Rightarrow> (case y of Finite b \<Rightarrow> Finite (f a b) | _ \<Rightarrow> NaN)
      | _ \<Rightarrow> NaN)"

definition exact_ops :: float64_ops where
  "exact_ops =
     \<lparr>f64_add = lift2 (\<lambda>a b. a + b),
      f64_sub = lift2 (\<lambda>a b. a - b),
      f64_mul = lift2 (\<lambda>a b. a * b),
      f64_quo = lift2 (\<lambda>a b. a / b),
      math_Sin = lift1 sin,
      math_Cos = lift1 cos,
      math_Asin = lift1 arcsin,
      math_Sqrt = lift1 sqrt,
      math_Pow = lift2 (\<lambda>a b. a ^ nat \<lfloor>b\<rfloor>)\<rparr>"

text \<open>
  What \<^verbatim>\<open>Distance\<close> amounts to in that arithmetic, for finite latitudes and
  longitudes in degrees.
\<close>

definition hav :: "real \<Rightarrow> real" where
  "hav x = (sin (x / 2))\<^sup>2"

definition great_circle :: "real \<Rightarrow> real \<Rightarrow> real \<Rightarrow> real \<Rightarrow> real" where
  "great_circle la1 lo1 la2 lo2 =
     2 * 6378100 *
       arcsin (sqrt (hav (la2 * Pi64 / 180 - la1 * Pi64 / 180)
                     + cos (la1 * Pi64 / 180) * cos (la2 * Pi64 / 180)
                       * hav (lo2 * Pi64 / 180 - lo1 * Pi64 / 180)))"

text \<open>
  An ASCII-only lower-casing, which agrees with \<^verbatim>\<open>strings.ToLower\<close> on ASCII
  strings; it instantiates the parameter in the concrete examples.
\<close>

definition ascii_ToLower :: "string \<Rightarrow> string" where
  "ascii_ToLower s =
     map (\<lambda>c. if 65 \<le> (of_char c :: nat) \<and> (of_char c :: nat) \<le> 90
               then char_of ((of_char c :: nat) + 32) else c) s"

text \<open>A network on which every request succeeds with an empty body.\<close>

definition quiet_net :: net where
  "quiet_net sent req = PostOk [] None"

subsection \<open>Example inputs\<close>

definition zero_CallbackQuerry :: CallbackQuerry where
  "zero_CallbackQuerry =
     \<lparr>CallbackQuerry_Id = [], CallbackQuerry_From = \<lparr>User_Id = 0, User_Username = []\<rparr>,
      CallbackQuerry_Data = [], CallbackQuerry_Message = zero_Message,
      CallbackQuerry_InlineMessageId = []\<rparr>"

text \<open>An update with a message from chat 42 and no callback event.\<close>

definition message_update :: "string \<Rightarrow> string \<Rightarrow> Location \<Rightarrow> Update" where
  "message_update username text loc =
     \<lparr>UpdateId = 1,
      Update_Message =
        zero_Message\<lparr>Message_Text := text,
                     Message_Chat := \<lparr>Chat_Id = 42, Chat_Username = username\<rparr>,
                     Message_Location := loc\<rparr>,
      Update_CallbackQuerry = zero_CallbackQuerry\<rparr>"

text \<open>An update with a callback event of an allowed user and no message.\<close>

definition callback_update :: Update where
  "callback_update =
     \<lparr>UpdateId = 7,
      Update_Message = zero_Message,
      Update_CallbackQuerry =
        zero_CallbackQuerry\<lparr>CallbackQuerry_Id := ''77'',
                            CallbackQuerry_From := \<lparr>User_Id = 5, User_Username = ''antonhulikau''\<rparr>,
                            CallbackQuerry_Data := ''0''\<rparr>\<rparr>"

text \<open>
  The point on the meridian of the first candidate that lies 2000 m to its north in the
  arithmetic without rounding: \<open>2000 / R\<close> radians, in degrees.
\<close>

definition north_2000 :: Location where
  "north_2000 =
     \<lparr>Longitude = Finite (6468847218715181 / 562949953421312),
      Latitude = Finite (6777772057367125 / 140737488355328 + 360000 / (6378100 * Pi64))\<rparr>"

text \<open>
  An update of variant 1 with a callback event of an allowed user on message 7 of chat
  42, carrying the given payload.
\<close>

definition zero_Message_v1 :: Message_v1 where
  "zero_Message_v1 =
     \<lparr>Message_v1_Id = 0, Message_v1_Text = [],
      Message_v1_Chat = \<lparr>Chat_v1_Id = 0\<rparr>,
      Message_v1_Audio = \<lparr>Audio_FileId = [], Audio_Duration = 0\<rparr>,
      Message_v1_Voice = \<lparr>Audio_FileId = [], Audio_Duration = 0\<rparr>,
      Message_v1_Document = \<lparr>Document_FileId = [], Document_FileName = []\<rparr>\<rparr>"

definition callback_update_v1 :: "string \<Rightarrow> Update_v1" where
  "callback_update_v1 payload =
     \<lparr>UpdateId_v1 = 9,
      Update_v1_Message = zero_Message_v1,
      Update_v1_CallbackQuerry =
        \<lparr>CallbackQuerry_v1_Id = ''99'',
         CallbackQuerry_v1_From = \<lparr>User_Id = 5, User_Username = ''antonhulikau''\<rparr>,
         CallbackQuerry_v1_Data = payload,
         CallbackQuerry_v1_Message =
           zero_Message_v1\<lparr>Message_v1_Id := 7, Message_v1_Chat := \<lparr>Chat_v1_Id = 42\<rparr>\<rparr>,
         CallbackQuerry_v1_InlineMessageId = []\<rparr>\<rparr>"

text \<open>
  A network on which every request is answered, but reading the body of the answer
  breaks off with an error.
\<close>

definition read_failure_net :: net where
  "read_failure_net sent req = PostOk ''partial'' (Some (Foreign ''unexpected EOF''))"

text \<open>
  A point on the meridian of the third candidate (list index 2), at latitude
  \<^verbatim>\<open>48.1328125\<close>: about 1170 m to its south and more than 2000 m away from every
  other candidate.
\<close>

definition south_of_2 :: Location where
  "south_of_2 =
     \<lparr>Longitude = Finite (3264131885774517 / 281474976710656),
      Latitude = Finite (6161 / 128)\<rparr>"

section \<open>The arithmetic without rounding\<close>

text \<open>
  The lemmas of this section are about the instance \<open>exact_ops\<close> of the arithmetic.
  They evaluate the concrete examples and say nothing about the arithmetic of the
  machine.
\<close>

lemma Pi64_bounds: "3.141 < Pi64" "Pi64 < 3.142"
  by (simp_all add: Pi64_def)

lemma hav_minus: "hav (- x) = hav x"
  by (simp add: hav_def)

lemma hav_cos: "hav x = (1 - cos x) / 2"
  using cos_double_sin [of "x / 2"] by (simp add: hav_def)

lemma hav_bounds: "0 \<le> hav x" "hav x \<le> 1"
proof -
  show "0 \<le> hav x" by (simp add: hav_def)
  have "0 \<le> 1 + cos x"
    using cos_ge_minus_one [of x] by linarith
  then show "hav x \<le> 1"
    by (simp add: hav_cos)
qed

lemma half_one_plus_cos_ge: "0 \<le> (1 + cos z) / 2" for z :: real
proof -
  have "0 \<le> 1 + cos z"
    using cos_ge_minus_one [of z] by linarith
  then show ?thesis by simp
qed

lemma half_one_plus_cos_le: "(1 + cos z) / 2 \<le> 1" for z :: real
  by simp

lemma sin_abs_half_sq: "(sin (\<bar>x\<bar> / 2))\<^sup>2 = hav x"
proof (cases "0 \<le> x")
  case True
  then show ?thesis by (simp add: hav_def)
next
  case False
  then have "\<bar>x\<bar> / 2 = - (x / 2)" by simp
  then show ?thesis by (simp only: hav_def sin_minus power2_minus)
qed

lemma hav_diff_plus: "hav (y - x) + cos x * cos y = (1 + cos (x + y)) / 2"
  by (simp add: hav_cos cos_diff cos_add field_simps)

text \<open>The quantity under the square root lies between 0 and 1.\<close>

lemma haversine_bounds:
  "0 \<le> hav (y - x) + cos x * cos y * hav w"
  "hav (y - x) + cos x * cos y * hav w \<le> 1"
proof -
  let ?A = "hav (y - x)"
  let ?B = "?A + cos x * cos y"
  let ?u = "hav w"
  have u: "0 \<le> ?u" "?u \<le> 1" by (rule hav_bounds)+
  have A: "0 \<le> ?A" "?A \<le> 1" by (rule hav_bounds)+
  have B_eq: "?B = (1 + cos (x + y)) / 2"
    by (rule hav_diff_plus)
  have B: "0 \<le> ?B" "?B \<le> 1"
    unfolding B_eq by (rule half_one_plus_cos_ge, rule half_one_plus_cos_le)
  have h: "?A + cos x * cos y * ?u = (1 - ?u) * ?A + ?u * ?B"
    by (simp add: algebra_simps)
  have "0 \<le> (1 - ?u) * ?A" "0 \<le> ?u * ?B"
    using u A B by simp_all
  then show "0 \<le> ?A + cos x * cos y * ?u" unfolding h by linarith
  have "(1 - ?u) * ?A + ?u * ?B \<le> 1"
    using u A(2) B(2) by (intro convex_bound_le) simp_all
  then show "?A + cos x * cos y * ?u \<le> 1" unfolding h .
qed

lemma arcsin_sqrt_hav:
  assumes "0 \<le> x" and "x \<le> pi"
  shows "arcsin (sqrt (hav x)) = x / 2"
proof -
  have "0 \<le> sin (x / 2)"
    using assms by (intro sin_ge_zero) simp_all
  then have "sqrt (hav x) = sin (x / 2)"
    by (simp add: hav_def)
  moreover have "arcsin (sin (x / 2)) = x / 2"
    using assms pi_ge_zero by (intro arcsin_sin) linarith+
  ultimately show ?thesis by simp
qed

text \<open>Along a meridian the distance is the radius times the angle.\<close>

lemma great_circle_meridian:
  assumes "0 \<le> d" and "d \<le> 100"
  shows "great_circle la lo (la + d) lo = 6378100 * (d * Pi64 / 180)"
proof -
  have "d * Pi64 / 180 \<le> 2"
    using assms by (simp add: Pi64_def)
  then have x: "0 \<le> d * Pi64 / 180" "d * Pi64 / 180 \<le> pi"
    using assms pi_ge_two by (simp_all add: Pi64_def)
  have diff: "(la + d) * Pi64 / 180 - la * Pi64 / 180 = d * Pi64 / 180"
    by (simp add: algebra_simps)
  have "great_circle la lo (la + d) lo = 2 * 6378100 * arcsin (sqrt (hav (d * Pi64 / 180)))"
    by (simp add: great_circle_def diff hav_def [of 0])
  also have "\<dots> = 2 * 6378100 * (d * Pi64 / 180 / 2)"
    by (simp only: arcsin_sqrt_hav [OF x])
  finally show ?thesis by simp
qed

text \<open>
  Two points between the latitudes of 50 degrees south and north whose latitudes differ
  by at least 0.018 degrees are at least 2000 m apart.
\<close>

lemma great_circle_ge_by_latitude:
  assumes a: "\<bar>la1\<bar> \<le> 50" and b: "\<bar>la2\<bar> \<le> 50"
    and far: "0.018 \<le> \<bar>la2 - la1\<bar>"
  shows "2000 \<le> great_circle la1 lo1 la2 lo2"
proof -
  let ?a = "la1 * Pi64 / 180" and ?b = "la2 * Pi64 / 180"
  let ?h = "hav (?b - ?a) + cos ?a * cos ?b * hav (lo2 * Pi64 / 180 - lo1 * Pi64 / 180)"
  let ?x0 = "1000 / 6378100 :: real"
  let ?y = "\<bar>?b - ?a\<bar> / 2"
  have a1: "- 1 \<le> ?a" "?a \<le> 1"
    using a by (simp_all add: Pi64_def abs_le_iff)
  have b1: "- 1 \<le> ?b" "?b \<le> 1"
    using b by (simp_all add: Pi64_def abs_le_iff)
  have "- (pi / 2) \<le> ?a" "?a \<le> pi / 2" "- (pi / 2) \<le> ?b" "?b \<le> pi / 2"
    using a1 b1 pi_ge_two by linarith+
  then have "0 \<le> cos ?a" "0 \<le> cos ?b"
    by (simp_all add: cos_ge_zero)
  then have "0 \<le> cos ?a * cos ?b * hav (lo2 * Pi64 / 180 - lo1 * Pi64 / 180)"
    using hav_bounds(1) by simp
  then have h_ge: "hav (?b - ?a) \<le> ?h"
    by simp
  have "?b - ?a = (la2 - la1) * (Pi64 / 180)"
    by (simp add: algebra_simps)
  moreover have "0 \<le> Pi64 / 180"
    by (simp add: Pi64_def)
  ultimately have "\<bar>?b - ?a\<bar> = \<bar>la2 - la1\<bar> * (Pi64 / 180)"
    by (simp only: abs_mult abs_of_nonneg)
  then have y_eq: "?y = \<bar>la2 - la1\<bar> * (Pi64 / 360)"
    by simp
  have y_lo: "?x0 \<le> ?y"
    unfolding y_eq using far by (simp add: Pi64_def)
  have "?y \<le> 1"
    using a1 b1 by (simp add: abs_le_iff)
  then have y_hi: "?y \<le> pi / 2"
    using pi_ge_two by linarith
  have x0: "0 \<le> ?x0" by simp
  have "sin ?x0 \<le> sin ?y"
    using x0 y_lo y_hi pi_ge_zero by (subst sin_mono_le_eq) linarith+
  moreover have sin_x0: "0 \<le> sin ?x0"
    using pi_ge_two by (intro sin_ge_zero) simp_all
  ultimately have "(sin ?x0)\<^sup>2 \<le> (sin ?y)\<^sup>2"
    by (intro power_mono)
  also have "(sin ?y)\<^sup>2 = hav (?b - ?a)"
    by (rule sin_abs_half_sq)
  finally have "(sin ?x0)\<^sup>2 \<le> ?h"
    using h_ge by linarith
  then have "sqrt ((sin ?x0)\<^sup>2) \<le> sqrt ?h"
    by (rule real_sqrt_le_mono)
  then have "sin ?x0 \<le> sqrt ?h"
    using sin_x0 by simp
  moreover have "sqrt ?h \<le> 1"
    using haversine_bounds(2) [of ?b ?a] by simp
  moreover have "- 1 \<le> sin ?x0" by simp
  ultimately have "arcsin (sin ?x0) \<le> arcsin (sqrt ?h)"
    by (intro arcsin_le_arcsin)
  moreover have "arcsin (sin ?x0) = ?x0"
    using pi_ge_two by (intro arcsin_sin) simp_all
  ultimately have "?x0 \<le> arcsin (sqrt ?h)"
    by simp
  then show ?thesis
    unfolding great_circle_def by simp
qed

text \<open>\<^verbatim>\<open>Distance\<close> in the arithmetic without rounding.\<close>

lemma Distance_exact:
  "Distance exact_ops \<lparr>Longitude = Finite lo1, Latitude = Finite la1\<rparr>
     \<lparr>Longitude = Finite lo2, Latitude = Finite la2\<rparr>
   = Finite (great_circle la1 lo1 la2 lo2)"
  by (simp add: Distance_def hsin_def exact_ops_def lift1_def lift2_def math_Pi_def
        great_circle_def hav_def Let_def)

section \<open>Properties of variant 2\<close>

subsection \<open>Senders and allow-list\<close>

lemma snd_sendTextMessage:
  "snd (sendTextMessage http chatId text sent) = sent @ [text_request chatId text]"
  by (simp add: sendTextMessage_def text_request_def Let_def
           split: http_outcome.split option.split)

lemma snd_sendLocationMessage:
  "snd (sendLocationMessage http chatId l sent) = sent @ [location_request chatId l]"
  by (simp add: sendLocationMessage_def location_request_def Let_def
           split: http_outcome.split option.split)

lemma isAllowed_loop_iff: "isAllowed_loop as e \<longleftrightarrow> e \<in> set as"
  by (induction as) auto

lemma isAllowed_iff: "isAllowed e \<longleftrightarrow> e \<in> {''antonhulikau'', ''sonicfelidae''}"
  by (auto simp add: isAllowed_def isAllowed_loop_iff ALLOWED_USERS_def)

lemma handler_not_allowed:
  assumes "parseTelegramRequest decode body = Inr update"
    and "\<not> isAllowed (Chat_Username (Message_Chat (Update_Message update)))"
  shows "HandleTelegramWebHook http strings_ToLower fp decode body = []"
  using assms by (simp add: HandleTelegramWebHook_def)

subsection \<open>The geofence loop\<close>

lemma locations_loop_eq:
  "locations_loop http fp update tls found sent =
     (found \<or> (\<exists>(t, l) \<in> set tls. f64_less (Distance fp l (Message_Location (Update_Message update))) (Finite 2000)),
      sent @ hints_for fp (Chat_Id (Message_Chat (Update_Message update)))
               (Message_Location (Update_Message update)) tls)"
proof (induction tls arbitrary: found sent)
  case Nil
  show ?case by (simp add: hints_for_def)
next
  case (Cons tl tls)
  obtain t l where tl: "tl = (t, l)" by (cases tl)
  show ?case
    unfolding tl
    by (simp add: Cons.IH split_beta snd_sendTextMessage snd_sendLocationMessage
          hints_for_def hint_requests_def supervisor_notice_def)
qed

lemma hints_for_Nil_iff:
  "hints_for fp chatId probe tls = [] \<longleftrightarrow> (\<forall>(t, l) \<in> set tls. \<not> f64_less (Distance fp l probe) (Finite 2000))"
  by (induction tls) (auto simp add: hints_for_def hint_requests_def)

lemma handler_geofence:
  assumes "parseTelegramRequest decode body = Inr update"
    and "isAllowed (Chat_Username (Message_Chat (Update_Message update)))"
    and "Message_Text (Update_Message update) \<noteq> ''/start''"
    and "Message_Text (Update_Message update) \<noteq> ''/unlock''"
    and "to_lower_letters strings_ToLower (Message_Text (Update_Message update)) \<noteq> ''afsio''"
    and "f64_less (Finite 0) (Latitude (Message_Location (Update_Message update)))"
  shows "HandleTelegramWebHook http strings_ToLower fp decode body =
     (let hints = hints_for fp (Chat_Id (Message_Chat (Update_Message update)))
                    (Message_Location (Update_Message update)) (enumerate 0 LOCATIONS)
      in if hints = []
         then [text_request (Chat_Id (Message_Chat (Update_Message update))) text_no_hints]
         else hints)"
proof -
  let ?chat = "Chat_Id (Message_Chat (Update_Message update))"
  let ?probe = "Message_Location (Update_Message update)"
  let ?tls = "enumerate 0 LOCATIONS"
  have loop: "locations_loop http fp update ?tls False [] =
      (hints_for fp ?chat ?probe ?tls \<noteq> [], hints_for fp ?chat ?probe ?tls)"
    by (simp only: locations_loop_eq hints_for_Nil_iff) auto
  have "HandleTelegramWebHook http strings_ToLower fp decode body =
      (let (found, sent1) = locations_loop http fp update ?tls False []
       in if \<not> found then snd (sendTextMessage http ?chat text_no_hints sent1) else sent1)"
    using assms by (simp add: HandleTelegramWebHook_def split_beta)
  also have "\<dots> = (if hints_for fp ?chat ?probe ?tls = []
                    then [text_request ?chat text_no_hints]
                    else hints_for fp ?chat ?probe ?tls)"
    unfolding loop by (simp add: snd_sendTextMessage)
  finally show ?thesis by (simp add: Let_def)
qed

subsection \<open>Which requests a hint consists of\<close>

lemma Itoa_small:
  "Itoa 0 = ''0''" "Itoa 1 = ''1''" "Itoa 2 = ''2''" "Itoa 3 = ''3''" "Itoa 4 = ''4''"
  by (simp_all add: Itoa_def digits.simps digit_char_def)

lemma enumerate_LOCATIONS:
  "enumerate 0 LOCATIONS =
     [(0, LOCATIONS ! 0), (1, LOCATIONS ! 1), (2, LOCATIONS ! 2), (3, LOCATIONS ! 3),
      (4, LOCATIONS ! 4)]"
  by (simp add: LOCATIONS_def)

lemma length_LOCATIONS: "length LOCATIONS = 5"
  by (simp add: LOCATIONS_def)

lemma less_5_cases:
  assumes "t < (5::nat)"
  obtains "t = 0" | "t = 1" | "t = 2" | "t = 3" | "t = 4"
  using assms by linarith

lemma supervisor_notice_eq_iff:
  assumes "t < 5" and "t' < 5"
  shows "supervisor_notice t = supervisor_notice t' \<longleftrightarrow> t = t'"
  using assms(1)
proof (cases rule: less_5_cases)
  case 1 with assms(2) show ?thesis
    by (cases rule: less_5_cases) (simp_all add: supervisor_notice_def text_request_def Itoa_small)
next
  case 2 with assms(2) show ?thesis
    by (cases rule: less_5_cases) (simp_all add: supervisor_notice_def text_request_def Itoa_small)
next
  case 3 with assms(2) show ?thesis
    by (cases rule: less_5_cases) (simp_all add: supervisor_notice_def text_request_def Itoa_small)
next
  case 4 with assms(2) show ?thesis
    by (cases rule: less_5_cases) (simp_all add: supervisor_notice_def text_request_def Itoa_small)
next
  case 5 with assms(2) show ?thesis
    by (cases rule: less_5_cases) (simp_all add: supervisor_notice_def text_request_def Itoa_small)
qed

lemma checking_prefix_not_check_place: "text_checking_prefix @ s \<noteq> text_check_place"
  by (simp add: text_checking_prefix_def text_check_place_def)

lemma checking_prefix_not_no_hints: "text_checking_prefix @ s \<noteq> text_no_hints"
  by (simp add: text_checking_prefix_def text_no_hints_def)

lemma supervisor_notice_in_hint:
  assumes "t < 5" and "t' < 5"
  shows "supervisor_notice t \<in> set (hint_requests chatId t' l) \<longleftrightarrow> t = t'"
proof -
  have "supervisor_notice t \<noteq> text_request chatId text_check_place"
    by (simp add: supervisor_notice_def text_request_def checking_prefix_not_check_place)
  moreover have "supervisor_notice t \<noteq> location_request chatId l"
    by (simp add: supervisor_notice_def text_request_def location_request_def)
  ultimately show ?thesis
    using supervisor_notice_eq_iff [OF assms] by (simp add: hint_requests_def)
qed

lemma supervisor_notice_not_no_hints:
  "supervisor_notice t \<noteq> text_request chatId text_no_hints"
  by (simp add: supervisor_notice_def text_request_def checking_prefix_not_no_hints)

lemma in_hints_for:
  "r \<in> set (hints_for fp chatId probe tls) \<longleftrightarrow>
     (\<exists>(t, l) \<in> set tls. f64_less (Distance fp l probe) (Finite 2000) \<and> r \<in> set (hint_requests chatId t l))"
  by (induction tls) (auto simp add: hints_for_def)

lemma supervisor_notice_in_hints:
  assumes "t < 5"
  shows "supervisor_notice t \<in> set (hints_for fp chatId probe (enumerate 0 LOCATIONS)) \<longleftrightarrow>
         f64_less (Distance fp (LOCATIONS ! t) probe) (Finite 2000)"
  using assms
  by (cases rule: less_5_cases)
     (simp_all add: in_hints_for enumerate_LOCATIONS supervisor_notice_in_hint)

text \<open>The supervisor is told about candidate \<open>t\<close> exactly when the test of the loop holds.\<close>

lemma handler_notice_iff:
  assumes "parseTelegramRequest decode body = Inr update"
    and "isAllowed (Chat_Username (Message_Chat (Update_Message update)))"
    and "Message_Text (Update_Message update) \<noteq> ''/start''"
    and "Message_Text (Update_Message update) \<noteq> ''/unlock''"
    and "to_lower_letters strings_ToLower (Message_Text (Update_Message update)) \<noteq> ''afsio''"
    and "f64_less (Finite 0) (Latitude (Message_Location (Update_Message update)))"
    and "t < 5"
  shows "supervisor_notice t \<in> set (HandleTelegramWebHook http strings_ToLower fp decode body) \<longleftrightarrow>
         f64_less (Distance fp (LOCATIONS ! t) (Message_Location (Update_Message update))) (Finite 2000)"
proof (cases "hints_for fp (Chat_Id (Message_Chat (Update_Message update)))
                (Message_Location (Update_Message update)) (enumerate 0 LOCATIONS) = []")
  case True
  then have "supervisor_notice t \<notin> set (hints_for fp (Chat_Id (Message_Chat (Update_Message update)))
                (Message_Location (Update_Message update)) (enumerate 0 LOCATIONS))"
    by simp
  then have "\<not> f64_less (Distance fp (LOCATIONS ! t) (Message_Location (Update_Message update))) (Finite 2000)"
    by (simp add: supervisor_notice_in_hints [OF assms(7)])
  then show ?thesis
    using True by (simp add: handler_geofence [OF assms(1-6)] supervisor_notice_not_no_hints)
next
  case False
  then show ?thesis
    by (simp add: handler_geofence [OF assms(1-6)] supervisor_notice_in_hints [OF assms(7)])
qed

lemma location_request_in_hint:
  assumes "t < 5" and "t' < 5"
  shows "location_request chatId (LOCATIONS ! t) \<in> set (hint_requests chatId t' (LOCATIONS ! t'))
         \<longleftrightarrow> t = t'"
proof -
  have "LOCATIONS ! t = LOCATIONS ! t' \<longleftrightarrow> t = t'"
    using assms(1)
  proof (cases rule: less_5_cases)
    case 1 with assms(2) show ?thesis
      by (cases rule: less_5_cases) (simp_all add: LOCATIONS_def)
  next
    case 2 with assms(2) show ?thesis
      by (cases rule: less_5_cases) (simp_all add: LOCATIONS_def)
  next
    case 3 with assms(2) show ?thesis
      by (cases rule: less_5_cases) (simp_all add: LOCATIONS_def)
  next
    case 4 with assms(2) show ?thesis
      by (cases rule: less_5_cases) (simp_all add: LOCATIONS_def)
  next
    case 5 with assms(2) show ?thesis
      by (cases rule: less_5_cases) (simp_all add: LOCATIONS_def)
  qed
  moreover have "location_request chatId l = location_request chatId l' \<longleftrightarrow> l = l'" for l l'
    by (auto simp add: location_request_def)
  ultimately show ?thesis
    by (simp add: hint_requests_def supervisor_notice_def)
       (simp add: text_request_def location_request_def)
qed

lemma location_request_in_hints:
  assumes "t < 5"
  shows "location_request chatId (LOCATIONS ! t)
           \<in> set (hints_for fp chatId probe (enumerate 0 LOCATIONS)) \<longleftrightarrow>
         f64_less (Distance fp (LOCATIONS ! t) probe) (Finite 2000)"
  using assms
  by (cases rule: less_5_cases)
     (simp_all add: in_hints_for enumerate_LOCATIONS location_request_in_hint)

lemma handler_location_iff:
  assumes "parseTelegramRequest decode body = Inr update"
    and "isAllowed (Chat_Username (Message_Chat (Update_Message update)))"
    and "Message_Text (Update_Message update) \<noteq> ''/start''"
    and "Message_Text (Update_Message update) \<noteq> ''/unlock''"
    and "to_lower_letters strings_ToLower (Message_Text (Update_Message update)) \<noteq> ''afsio''"
    and "f64_less (Finite 0) (Latitude (Message_Location (Update_Message update)))"
    and "t < 5"
  shows "location_request (Chat_Id (Message_Chat (Update_Message update))) (LOCATIONS ! t)
           \<in> set (HandleTelegramWebHook http strings_ToLower fp decode body) \<longleftrightarrow>
         f64_less (Distance fp (LOCATIONS ! t) (Message_Location (Update_Message update))) (Finite 2000)"
proof (cases "hints_for fp (Chat_Id (Message_Chat (Update_Message update)))
                (Message_Location (Update_Message update)) (enumerate 0 LOCATIONS) = []")
  case True
  then have "location_request (Chat_Id (Message_Chat (Update_Message update))) (LOCATIONS ! t)
      \<notin> set (hints_for fp (Chat_Id (Message_Chat (Update_Message update)))
                (Message_Location (Update_Message update)) (enumerate 0 LOCATIONS))"
    by simp
  then have "\<not> f64_less (Distance fp (LOCATIONS ! t) (Message_Location (Update_Message update))) (Finite 2000)"
    by (simp add: location_request_in_hints [OF assms(7)])
  then show ?thesis
    using True
    by (simp add: handler_geofence [OF assms(1-6)] location_request_def text_request_def)
next
  case False
  then show ?thesis
    by (simp add: handler_geofence [OF assms(1-6)] location_request_in_hints [OF assms(7)])
qed

subsection \<open>The comparison with the threshold\<close>

lemma f64_less_2000_iff:
  "f64_less x (Finite 2000) \<longleftrightarrow> (\<exists>d. x = Finite d \<and> d < 2000) \<or> x = NegInf"
  by (cases x) (simp_all add: f64_less_def)

lemma f64_less_0_Finite: "f64_less (Finite 0) (Finite a) \<longleftrightarrow> 0 < a"
  by (simp add: f64_less_def)

subsection \<open>A point at exactly 2000 m in the arithmetic without rounding\<close>

lemma Distance_north_2000: "Distance exact_ops (LOCATIONS ! 0) north_2000 = Finite 2000"
proof -
  let ?d = "360000 / (6378100 * Pi64) :: real"
  let ?la = "6777772057367125 / 140737488355328 :: real"
  let ?lo = "6468847218715181 / 562949953421312 :: real"
  have d: "0 \<le> ?d" "?d \<le> 100"
    by (simp_all add: Pi64_def)
  have "Distance exact_ops (LOCATIONS ! 0) north_2000 = Finite (great_circle ?la ?lo (?la + ?d) ?lo)"
    by (simp add: LOCATIONS_def north_2000_def Distance_exact)
  also have "great_circle ?la ?lo (?la + ?d) ?lo = 6378100 * (?d * Pi64 / 180)"
    using d by (rule great_circle_meridian)
  also have "\<dots> = 2000"
    by (simp add: Pi64_def)
  finally show ?thesis .
qed

subsection \<open>A point near the third candidate only\<close>

lemma south_of_2_near: "f64_less (Distance exact_ops (LOCATIONS ! 2) south_of_2) (Finite 2000)"
proof -
  let ?la = "6161 / 128 :: real"
  let ?lo = "3264131885774517 / 281474976710656 :: real"
  let ?d = "6775566560187109 / 140737488355328 - 6161 / 128 :: real"
  have d: "0 \<le> ?d" "?d \<le> 100"
    by simp_all
  have "great_circle ?la ?lo (?la + ?d) ?lo = 6378100 * (?d * Pi64 / 180)"
    using d by (rule great_circle_meridian)
  also have "\<dots> < 2000"
    by (simp add: Pi64_def)
  finally have "great_circle ?la ?lo (?la + ?d) ?lo < 2000" .
  moreover have "great_circle (?la + ?d) ?lo ?la ?lo = great_circle ?la ?lo (?la + ?d) ?lo"
    unfolding great_circle_def
    using hav_minus [of "?la * Pi64 / 180 - (?la + ?d) * Pi64 / 180"]
    by (simp add: mult.commute)
  moreover have "Distance exact_ops (LOCATIONS ! 2) south_of_2
      = Finite (great_circle (?la + ?d) ?lo ?la ?lo)"
    by (simp add: LOCATIONS_def south_of_2_def Distance_exact)
  ultimately show ?thesis
    by (simp add: f64_less_def)
qed

lemma south_of_2_far:
  "\<not> f64_less (Distance exact_ops (LOCATIONS ! 0) south_of_2) (Finite 2000)"
  "\<not> f64_less (Distance exact_ops (LOCATIONS ! 1) south_of_2) (Finite 2000)"
  "\<not> f64_less (Distance exact_ops (LOCATIONS ! 3) south_of_2) (Finite 2000)"
  "\<not> f64_less (Distance exact_ops (LOCATIONS ! 4) south_of_2) (Finite 2000)"
proof -
  have far: "\<not> f64_less (Finite (great_circle la1 lo1 la2 lo2)) (Finite 2000)"
    if "\<bar>la1\<bar> \<le> 50" "\<bar>la2\<bar> \<le> 50" "0.018 \<le> \<bar>la2 - la1\<bar>" for la1 lo1 la2 lo2
    using great_circle_ge_by_latitude [OF that, of lo1 lo2] by (simp add: f64_less_def)
  show "\<not> f64_less (Distance exact_ops (LOCATIONS ! 0) south_of_2) (Finite 2000)"
    unfolding LOCATIONS_def south_of_2_def by (simp add: Distance_exact) (rule far, simp_all)
  show "\<not> f64_less (Distance exact_ops (LOCATIONS ! 1) south_of_2) (Finite 2000)"
    unfolding LOCATIONS_def south_of_2_def by (simp add: Distance_exact) (rule far, simp_all)
  show "\<not> f64_less (Distance exact_ops (LOCATIONS ! 3) south_of_2) (Finite 2000)"
    unfolding LOCATIONS_def south_of_2_def by (simp add: Distance_exact) (rule far, simp_all)
  show "\<not> f64_less (Distance exact_ops (LOCATIONS ! 4) south_of_2) (Finite 2000)"
    unfolding LOCATIONS_def south_of_2_def by (simp add: Distance_exact) (rule far, simp_all)
qed

subsection \<open>The claims about variant 2\<close>

text \<open>
  C1: for an update from an allowed chat username whose text is neither /start nor
  /unlock nor the secret word and whose location has a latitude above 0, the handler
  goes through all five candidates; for every candidate whose computed distance to the
  supplied location compares below the threshold of 2000 m it sends the "check this
  place" text to the user, the notice with the candidate's list index to the supervisor
  and the candidate's coordinates as a location message, in list order and without
  stopping at the first match; if no candidate is within the threshold it sends the
  "no hints nearby" text once and nothing else. This holds whatever the floating-point
  operations, the lower-casing and the network do.
\<close>

theorem geofence_hints:
  assumes "parseTelegramRequest decode body = Inr update"
    and "Chat_Username (Message_Chat (Update_Message update)) \<in> {''antonhulikau'', ''sonicfelidae''}"
    and "Message_Text (Update_Message update) \<noteq> ''/start''"
    and "Message_Text (Update_Message update) \<noteq> ''/unlock''"
    and "to_lower_letters strings_ToLower (Message_Text (Update_Message update)) \<noteq> ''afsio''"
    and "f64_less (Finite 0) (Latitude (Message_Location (Update_Message update)))"
  shows "length LOCATIONS = 5 \<and>
    HandleTelegramWebHook http strings_ToLower fp decode body =
      (if \<forall>l \<in> set LOCATIONS.
            \<not> f64_less (Distance fp l (Message_Location (Update_Message update))) (Finite 2000)
       then [text_request (Chat_Id (Message_Chat (Update_Message update))) text_no_hints]
       else concat (map (\<lambda>(t, l).
              if f64_less (Distance fp l (Message_Location (Update_Message update))) (Finite 2000)
              then [text_request (Chat_Id (Message_Chat (Update_Message update))) text_check_place,
                    text_request ANTON_CHAT_ID (text_checking_prefix @ Itoa (int t) @ ''!''),
                    location_request (Chat_Id (Message_Chat (Update_Message update))) l]
              else [])
            (enumerate 0 LOCATIONS)))"
proof -
  let ?chat = "Chat_Id (Message_Chat (Update_Message update))"
  let ?probe = "Message_Location (Update_Message update)"
  have allowed: "isAllowed (Chat_Username (Message_Chat (Update_Message update)))"
    using assms(2) by (simp add: isAllowed_iff)
  have "snd ` set (enumerate 0 LOCATIONS) = set LOCATIONS"
    by (simp flip: set_map)
  moreover have "(\<forall>(t, l) \<in> set tls. \<not> f64_less (Distance fp l ?probe) (Finite 2000)) \<longleftrightarrow>
        (\<forall>l \<in> snd ` set tls. \<not> f64_less (Distance fp l ?probe) (Finite 2000))"
    for tls :: "(nat \<times> Location) list"
    by force
  ultimately have none: "(hints_for fp ?chat ?probe (enumerate 0 LOCATIONS) = []) \<longleftrightarrow>
        (\<forall>l \<in> set LOCATIONS. \<not> f64_less (Distance fp l ?probe) (Finite 2000))"
    by (simp only: hints_for_Nil_iff)
  have handler: "HandleTelegramWebHook http strings_ToLower fp decode body =
      (if \<forall>l \<in> set LOCATIONS. \<not> f64_less (Distance fp l ?probe) (Finite 2000)
       then [text_request ?chat text_no_hints]
       else hints_for fp ?chat ?probe (enumerate 0 LOCATIONS))"
    by (simp only: handler_geofence [OF assms(1) allowed assms(3-6)] Let_def none)
  have hints: "hints_for fp ?chat ?probe tls =
      concat (map (\<lambda>(t, l).
              if f64_less (Distance fp l ?probe) (Finite 2000)
              then [text_request ?chat text_check_place,
                    text_request ANTON_CHAT_ID (text_checking_prefix @ Itoa (int t) @ ''!''),
                    location_request ?chat l]
              else []) tls)" for tls
    by (simp only: hints_for_def hint_requests_def supervisor_notice_def)
  show ?thesis
    unfolding handler hints by (simp only: length_LOCATIONS simp_thms)
qed

theorem geofence_hints_witness:
  "parseTelegramRequest (\<lambda>b. Inr (message_update ''sonicfelidae'' ''hello'' south_of_2)) []
     = Inr (message_update ''sonicfelidae'' ''hello'' south_of_2)
   \<and> Chat_Username (Message_Chat (Update_Message (message_update ''sonicfelidae'' ''hello'' south_of_2)))
       \<in> {''antonhulikau'', ''sonicfelidae''}
   \<and> Message_Text (Update_Message (message_update ''sonicfelidae'' ''hello'' south_of_2)) \<noteq> ''/start''
   \<and> Message_Text (Update_Message (message_update ''sonicfelidae'' ''hello'' south_of_2)) \<noteq> ''/unlock''
   \<and> to_lower_letters ascii_ToLower
        (Message_Text (Update_Message (message_update ''sonicfelidae'' ''hello'' south_of_2))) \<noteq> ''afsio''
   \<and> f64_less (Finite 0)
        (Latitude (Message_Location (Update_Message (message_update ''sonicfelidae'' ''hello'' south_of_2))))
   \<and> HandleTelegramWebHook quiet_net ascii_ToLower exact_ops
        (\<lambda>b. Inr (message_update ''sonicfelidae'' ''hello'' south_of_2)) [] =
      [text_request 42 text_check_place,
       text_request ANTON_CHAT_ID (text_checking_prefix @ ''2!''),
       location_request 42 (LOCATIONS ! 2)]"
proof -
  let ?u = "message_update ''sonicfelidae'' ''hello'' south_of_2"
  have h1: "parseTelegramRequest (\<lambda>b. Inr ?u) [] = Inr ?u"
    by (simp add: parseTelegramRequest_def message_update_def)
  have h2: "Chat_Username (Message_Chat (Update_Message ?u)) \<in> {''antonhulikau'', ''sonicfelidae''}"
    by (simp add: message_update_def)
  have h3: "Message_Text (Update_Message ?u) \<noteq> ''/start''"
    and h4: "Message_Text (Update_Message ?u) \<noteq> ''/unlock''"
    by (simp_all add: message_update_def)
  have h5: "to_lower_letters ascii_ToLower (Message_Text (Update_Message ?u)) \<noteq> ''afsio''"
    by (simp add: message_update_def to_lower_letters_def ascii_ToLower_def)
  have h6: "f64_less (Finite 0) (Latitude (Message_Location (Update_Message ?u)))"
    by (simp add: message_update_def south_of_2_def f64_less_def)
  have loc: "Message_Location (Update_Message ?u) = south_of_2"
    and chat: "Chat_Id (Message_Chat (Update_Message ?u)) = 42"
    by (simp_all add: message_update_def)
  have "LOCATIONS ! 2 \<in> set LOCATIONS"
    by (rule nth_mem) (simp add: length_LOCATIONS)
  with south_of_2_near
  have some: "\<not> (\<forall>l \<in> set LOCATIONS.
                 \<not> f64_less (Distance exact_ops l south_of_2) (Finite 2000))"
    by blast
  from geofence_hints [OF h1 h2 h3 h4 h5 h6, where http = quiet_net and fp = exact_ops]
  have "HandleTelegramWebHook quiet_net ascii_ToLower exact_ops (\<lambda>b. Inr ?u) [] =
      concat (map (\<lambda>(t, l).
              if f64_less (Distance exact_ops l south_of_2) (Finite 2000)
              then [text_request 42 text_check_place,
                    text_request ANTON_CHAT_ID (text_checking_prefix @ Itoa (int t) @ ''!''),
                    location_request 42 l]
              else [])
            (enumerate 0 LOCATIONS))"
    unfolding loc chat using some by simp
  then have "HandleTelegramWebHook quiet_net ascii_ToLower exact_ops (\<lambda>b. Inr ?u) [] =
      [text_request 42 text_check_place,
       text_request ANTON_CHAT_ID (text_checking_prefix @ ''2!''),
       location_request 42 (LOCATIONS ! 2)]"
    unfolding enumerate_LOCATIONS
    by (simp add: south_of_2_far south_of_2_near Itoa_small del: One_nat_def)
  with h1 h2 h3 h4 h5 h6 show ?thesis
    by blast
qed

text \<open>
  C3: for a successfully parsed update whose message chat username is not one of
  antonhulikau and sonicfelidae, the handler makes no outbound call at all, whatever the
  other fields of the update, the network, the lower-casing and the arithmetic are.
\<close>

theorem allow_list_gate:
  assumes "parseTelegramRequest decode body = Inr update"
    and "Chat_Username (Message_Chat (Update_Message update)) \<notin> {''antonhulikau'', ''sonicfelidae''}"
  shows "HandleTelegramWebHook http strings_ToLower fp decode body = []"
proof -
  have "\<not> isAllowed (Chat_Username (Message_Chat (Update_Message update)))"
    using assms(2) by (simp add: isAllowed_iff)
  with assms(1) show ?thesis by (rule handler_not_allowed)
qed

theorem allow_list_gate_witness:
  "parseTelegramRequest (\<lambda>b. Inr (message_update ''mallory'' ''/start'' (LOCATIONS ! 0))) []
     = Inr (message_update ''mallory'' ''/start'' (LOCATIONS ! 0))
   \<and> Chat_Username (Message_Chat (Update_Message (message_update ''mallory'' ''/start'' (LOCATIONS ! 0))))
       \<notin> {''antonhulikau'', ''sonicfelidae''}
   \<and> HandleTelegramWebHook quiet_net ascii_ToLower exact_ops
        (\<lambda>b. Inr (message_update ''mallory'' ''/start'' (LOCATIONS ! 0))) [] = []"
proof -
  let ?u = "message_update ''mallory'' ''/start'' (LOCATIONS ! 0)"
  have h1: "parseTelegramRequest (\<lambda>b. Inr ?u) [] = Inr ?u"
    by (simp add: parseTelegramRequest_def message_update_def)
  have h2: "Chat_Username (Message_Chat (Update_Message ?u)) \<notin> {''antonhulikau'', ''sonicfelidae''}"
    by (simp add: message_update_def)
  from allow_list_gate [OF h1 h2, where http = quiet_net and strings_ToLower = ascii_ToLower
                          and fp = exact_ops] h1 h2
  show ?thesis by blast
qed

text \<open>
  C9: the threshold of 2000 m is exclusive. For an update that reaches the geofence
  check and a candidate index \<open>t\<close>, the handler posts the supervisor notice with index
  \<open>t\<close>, and the location message with the coordinates of candidate \<open>t\<close>, exactly
  when the computed distance of candidate \<open>t\<close> to the supplied location compares below
  2000: for a finite computed distance \<open>d\<close> that is \<open>d < 2000\<close>, and a computed
  distance of NaN never does. In particular the handler posts neither when the computed
  distance equals 2000. This holds whatever the floating-point operations compute.
\<close>

theorem threshold_exclusive:
  assumes "parseTelegramRequest decode body = Inr update"
    and "Chat_Username (Message_Chat (Update_Message update)) \<in> {''antonhulikau'', ''sonicfelidae''}"
    and "Message_Text (Update_Message update) \<noteq> ''/start''"
    and "Message_Text (Update_Message update) \<noteq> ''/unlock''"
    and "to_lower_letters strings_ToLower (Message_Text (Update_Message update)) \<noteq> ''afsio''"
    and "f64_less (Finite 0) (Latitude (Message_Location (Update_Message update)))"
    and "t < length LOCATIONS"
  shows "(Distance fp (LOCATIONS ! t) (Message_Location (Update_Message update)) = Finite 2000 \<longrightarrow>
            supervisor_notice t \<notin> set (HandleTelegramWebHook http strings_ToLower fp decode body)
          \<and> location_request (Chat_Id (Message_Chat (Update_Message update))) (LOCATIONS ! t)
              \<notin> set (HandleTelegramWebHook http strings_ToLower fp decode body))
    \<and> (\<forall>d. Distance fp (LOCATIONS ! t) (Message_Location (Update_Message update)) = Finite d \<longrightarrow>
            (supervisor_notice t \<in> set (HandleTelegramWebHook http strings_ToLower fp decode body)
               \<longleftrightarrow> d < 2000)
          \<and> (location_request (Chat_Id (Message_Chat (Update_Message update))) (LOCATIONS ! t)
                 \<in> set (HandleTelegramWebHook http strings_ToLower fp decode body)
               \<longleftrightarrow> d < 2000))
    \<and> (Distance fp (LOCATIONS ! t) (Message_Location (Update_Message update)) = NaN \<longrightarrow>
            supervisor_notice t \<notin> set (HandleTelegramWebHook http strings_ToLower fp decode body)
          \<and> location_request (Chat_Id (Message_Chat (Update_Message update))) (LOCATIONS ! t)
              \<notin> set (HandleTelegramWebHook http strings_ToLower fp decode body))
    \<and> (supervisor_notice t \<in> set (HandleTelegramWebHook http strings_ToLower fp decode body) \<longleftrightarrow>
         f64_less (Distance fp (LOCATIONS ! t) (Message_Location (Update_Message update))) (Finite 2000))
    \<and> (location_request (Chat_Id (Message_Chat (Update_Message update))) (LOCATIONS ! t)
          \<in> set (HandleTelegramWebHook http strings_ToLower fp decode body) \<longleftrightarrow>
         f64_less (Distance fp (LOCATIONS ! t) (Message_Location (Update_Message update))) (Finite 2000))"
proof -
  have allowed: "isAllowed (Chat_Username (Message_Chat (Update_Message update)))"
    using assms(2) by (simp add: isAllowed_iff)
  have t: "t < 5"
    using assms(7) by (simp only: length_LOCATIONS)
  note notice = handler_notice_iff [OF assms(1) allowed assms(3-6) t, where http = http]
  note location = handler_location_iff [OF assms(1) allowed assms(3-6) t, where http = http]
  show ?thesis
    unfolding notice location by (simp add: f64_less_def)
qed

theorem threshold_exclusive_witness:
  "parseTelegramRequest (\<lambda>b. Inr (message_update ''antonhulikau'' ''hello'' north_2000)) []
     = Inr (message_update ''antonhulikau'' ''hello'' north_2000)
   \<and> Chat_Username (Message_Chat (Update_Message (message_update ''antonhulikau'' ''hello'' north_2000)))
       \<in> {''antonhulikau'', ''sonicfelidae''}
   \<and> Message_Text (Update_Message (message_update ''antonhulikau'' ''hello'' north_2000)) \<noteq> ''/start''
   \<and> Message_Text (Update_Message (message_update ''antonhulikau'' ''hello'' north_2000)) \<noteq> ''/unlock''
   \<and> to_lower_letters ascii_ToLower
        (Message_Text (Update_Message (message_update ''antonhulikau'' ''hello'' north_2000))) \<noteq> ''afsio''
   \<and> f64_less (Finite 0)
        (Latitude (Message_Location (Update_Message (message_update ''antonhulikau'' ''hello'' north_2000))))
   \<and> 0 < length LOCATIONS
   \<and> Distance exact_ops (LOCATIONS ! 0) north_2000 = Finite 2000
   \<and> supervisor_notice 0
       \<notin> set (HandleTelegramWebHook quiet_net ascii_ToLower exact_ops
                (\<lambda>b. Inr (message_update ''antonhulikau'' ''hello'' north_2000)) [])
   \<and> location_request 42 (LOCATIONS ! 0)
       \<notin> set (HandleTelegramWebHook quiet_net ascii_ToLower exact_ops
                (\<lambda>b. Inr (message_update ''antonhulikau'' ''hello'' north_2000)) [])"
proof -
  let ?u = "message_update ''antonhulikau'' ''hello'' north_2000"
  have h1: "parseTelegramRequest (\<lambda>b. Inr ?u) [] = Inr ?u"
    by (simp add: parseTelegramRequest_def message_update_def)
  have h2: "Chat_Username (Message_Chat (Update_Message ?u)) \<in> {''antonhulikau'', ''sonicfelidae''}"
    by (simp add: message_update_def)
  have h3: "Message_Text (Update_Message ?u) \<noteq> ''/start''"
    and h4: "Message_Text (Update_Message ?u) \<noteq> ''/unlock''"
    by (simp_all add: message_update_def)
  have h5: "to_lower_letters ascii_ToLower (Message_Text (Update_Message ?u)) \<noteq> ''afsio''"
    by (simp add: message_update_def to_lower_letters_def ascii_ToLower_def)
  have "f64_less (Finite 0) (Latitude north_2000)"
    by (simp add: north_2000_def f64_less_def Pi64_def)
  then have h6: "f64_less (Finite 0) (Latitude (Message_Location (Update_Message ?u)))"
    by (simp add: message_update_def)
  have h7: "0 < length LOCATIONS"
    by (simp add: length_LOCATIONS)
  have loc: "Message_Location (Update_Message ?u) = north_2000"
    and chat: "Chat_Id (Message_Chat (Update_Message ?u)) = 42"
    by (simp_all add: message_update_def)
  from threshold_exclusive [OF h1 h2 h3 h4 h5 h6 h7, where http = quiet_net and fp = exact_ops]
  have "Distance exact_ops (LOCATIONS ! 0) north_2000 = Finite 2000 \<longrightarrow>
          supervisor_notice 0 \<notin> set (HandleTelegramWebHook quiet_net ascii_ToLower exact_ops (\<lambda>b. Inr ?u) [])
        \<and> location_request 42 (LOCATIONS ! 0)
            \<notin> set (HandleTelegramWebHook quiet_net ascii_ToLower exact_ops (\<lambda>b. Inr ?u) [])"
    unfolding loc chat by (elim conjE)
  with Distance_north_2000 h1 h2 h3 h4 h5 h6 h7
  show ?thesis
    by blast
qed

text \<open>
  C10: an update that carries only a callback event and no message, so that its message
  is the zero value and the chat username the empty string, produces no outbound call:
  the gate looks at the message's chat username, and the empty string is not allowed.
\<close>

theorem callback_only_update_ignored:
  assumes "parseTelegramRequest decode body = Inr update"
    and "Update_Message update = zero_Message"
  shows "Chat_Username (Message_Chat (Update_Message update)) = []
       \<and> [] \<notin> set ALLOWED_USERS
       \<and> HandleTelegramWebHook http strings_ToLower fp decode body = []"
proof -
  have empty: "Chat_Username (Message_Chat (Update_Message update)) = []"
    using assms(2) by (simp add: zero_Message_def)
  have "\<not> isAllowed []"
    by (simp add: isAllowed_iff)
  then have "\<not> isAllowed (Chat_Username (Message_Chat (Update_Message update)))"
    by (simp add: empty)
  with assms(1) have "HandleTelegramWebHook http strings_ToLower fp decode body = []"
    by (rule handler_not_allowed)
  with empty show ?thesis
    by (simp add: ALLOWED_USERS_def)
qed

theorem callback_only_update_ignored_witness:
  "parseTelegramRequest (\<lambda>b. Inr callback_update) [] = Inr callback_update
   \<and> Update_Message callback_update = zero_Message
   \<and> User_Username (CallbackQuerry_From (Update_CallbackQuerry callback_update)) = ''antonhulikau''
   \<and> HandleTelegramWebHook quiet_net ascii_ToLower exact_ops (\<lambda>b. Inr callback_update) [] = []"
proof -
  have h1: "parseTelegramRequest (\<lambda>b. Inr callback_update) [] = Inr callback_update"
    by (simp add: parseTelegramRequest_def callback_update_def)
  have h2: "Update_Message callback_update = zero_Message"
    by (simp add: callback_update_def)
  have h3: "User_Username (CallbackQuerry_From (Update_CallbackQuerry callback_update)) = ''antonhulikau''"
    by (simp add: callback_update_def zero_CallbackQuerry_def)
  from callback_only_update_ignored [OF h1 h2, where http = quiet_net
                                       and strings_ToLower = ascii_ToLower and fp = exact_ops] h1 h2 h3
  show ?thesis by blast
qed

section \<open>Properties of the parser and the senders\<close>

text \<open>
  C5: in both variants the parser returns an error and no update for every body whose
  decoded update identifier is 0, whatever the other fields are; it returns the populated
  update and no error for every body that decodes with a non-zero identifier; and for a
  body that does not decode it returns the decoder's error.
\<close>

theorem parser_contract:
  "(decode body = Inr update \<and> UpdateId update = 0
      \<longrightarrow> parseTelegramRequest decode body = Inl invalid_update_id)
   \<and> (decode body = Inr update \<and> UpdateId update \<noteq> 0
      \<longrightarrow> parseTelegramRequest decode body = Inr update)
   \<and> (decode body = Inl err \<longrightarrow> parseTelegramRequest decode body = Inl err)
   \<and> (decode1 body = Inr update1 \<and> UpdateId_v1 update1 = 0
      \<longrightarrow> parseTelegramRequest_v1 decode1 body = Inl invalid_update_id)
   \<and> (decode1 body = Inr update1 \<and> UpdateId_v1 update1 \<noteq> 0
      \<longrightarrow> parseTelegramRequest_v1 decode1 body = Inr update1)
   \<and> (decode1 body = Inl err \<longrightarrow> parseTelegramRequest_v1 decode1 body = Inl err)"
  by (simp add: parseTelegramRequest_def parseTelegramRequest_v1_def)

theorem parser_contract_witness:
  "parseTelegramRequest (\<lambda>b. Inr (callback_update\<lparr>UpdateId := 0\<rparr>)) ''{}'' = Inl invalid_update_id
   \<and> parseTelegramRequest (\<lambda>b. Inr callback_update) ''{}'' = Inr callback_update
   \<and> parseTelegramRequest (\<lambda>b. Inl (Foreign ''unexpected end of JSON input'')) ''{''
       = Inl (Foreign ''unexpected end of JSON input'')
   \<and> parseTelegramRequest_v1 (\<lambda>b. Inr ((callback_update_v1 ''0'')\<lparr>UpdateId_v1 := 0\<rparr>)) ''{}''
       = Inl invalid_update_id
   \<and> parseTelegramRequest_v1 (\<lambda>b. Inr (callback_update_v1 ''0'')) ''{}'' = Inr (callback_update_v1 ''0'')
   \<and> parseTelegramRequest_v1 (\<lambda>b. Inl (Foreign ''unexpected end of JSON input'')) ''{''
       = Inl (Foreign ''unexpected end of JSON input'')"
proof -
  have zero: "UpdateId (callback_update\<lparr>UpdateId := 0\<rparr>) = 0"
    and nonzero: "UpdateId callback_update \<noteq> 0"
    and zero1: "UpdateId_v1 ((callback_update_v1 ''0'')\<lparr>UpdateId_v1 := 0\<rparr>) = 0"
    and nonzero1: "UpdateId_v1 (callback_update_v1 ''0'') \<noteq> 0"
    by (simp_all add: callback_update_def callback_update_v1_def)
  from parser_contract
         [of "\<lambda>b. Inr (callback_update\<lparr>UpdateId := 0\<rparr>)" "''{}''" "callback_update\<lparr>UpdateId := 0\<rparr>"
             "Foreign ''x''" "\<lambda>b. Inr ((callback_update_v1 ''0'')\<lparr>UpdateId_v1 := 0\<rparr>)"
             "(callback_update_v1 ''0'')\<lparr>UpdateId_v1 := 0\<rparr>"]
       zero zero1
  have rejected: "parseTelegramRequest (\<lambda>b. Inr (callback_update\<lparr>UpdateId := 0\<rparr>)) ''{}''
        = Inl invalid_update_id"
      "parseTelegramRequest_v1 (\<lambda>b. Inr ((callback_update_v1 ''0'')\<lparr>UpdateId_v1 := 0\<rparr>)) ''{}''
        = Inl invalid_update_id"
    by blast+
  from parser_contract
         [of "\<lambda>b. Inr callback_update" "''{}''" callback_update "Foreign ''x''"
             "\<lambda>b. Inr (callback_update_v1 ''0'')" "callback_update_v1 ''0''"]
       nonzero nonzero1
  have accepted: "parseTelegramRequest (\<lambda>b. Inr callback_update) ''{}'' = Inr callback_update"
      "parseTelegramRequest_v1 (\<lambda>b. Inr (callback_update_v1 ''0'')) ''{}'' = Inr (callback_update_v1 ''0'')"
    by blast+
  from parser_contract
         [of "\<lambda>b. Inl (Foreign ''unexpected end of JSON input'')" "''{''" callback_update
             "Foreign ''unexpected end of JSON input''"
             "\<lambda>b. Inl (Foreign ''unexpected end of JSON input'')" "callback_update_v1 ''0''"]
  have malformed: "parseTelegramRequest (\<lambda>b. Inl (Foreign ''unexpected end of JSON input'')) ''{''
        = Inl (Foreign ''unexpected end of JSON input'')"
      "parseTelegramRequest_v1 (\<lambda>b. Inl (Foreign ''unexpected end of JSON input'')) ''{''
        = Inl (Foreign ''unexpected end of JSON input'')"
    by blast+
  from rejected accepted malformed show ?thesis by blast
qed

subsection \<open>What the senders return\<close>

text \<open>
  The part of the senders' contract that holds: each sender posts exactly one request,
  hands a transport error back to its caller, and returns the body as it was read when
  nothing failed.
\<close>

lemma sendTextMessage_contract:
  "snd (sendTextMessage http chatId text sent) = sent @ [text_request chatId text]"
  "http sent (text_request chatId text) = PostErr err \<Longrightarrow>
     fst (sendTextMessage http chatId text sent) = ([], Some err)"
  "http sent (text_request chatId text) = PostOk bodyBytes None \<Longrightarrow>
     fst (sendTextMessage http chatId text sent) = (bodyBytes, None)"
  by (simp_all add: sendTextMessage_def text_request_def Let_def
           split: http_outcome.split option.split)

lemma sendLocationMessage_contract:
  "snd (sendLocationMessage http chatId l sent) = sent @ [location_request chatId l]"
  "http sent (location_request chatId l) = PostErr err \<Longrightarrow>
     fst (sendLocationMessage http chatId l sent) = ([], Some err)"
  "http sent (location_request chatId l) = PostOk bodyBytes None \<Longrightarrow>
     fst (sendLocationMessage http chatId l sent) = (bodyBytes, None)"
  by (simp_all add: sendLocationMessage_def location_request_def Let_def
           split: http_outcome.split option.split)

lemma sendCelebrateMessage_in_range:
  assumes "0 \<le> p" and "p < int (length CELEBRATIONS)"
  shows "\<exists>res. sendCelebrateMessage http chatId messageId p sent =
           Inr (res, sent @ [celebrate_request chatId messageId (nat p)])"
  using assms
  by (simp add: sendCelebrateMessage_def celebrate_request_def Let_def
           split: http_outcome.split option.split)

text \<open>The edit is posted exactly for the indices within the phrase list.\<close>

lemma sendCelebrateMessage_returns_iff:
  "(\<exists>r. sendCelebrateMessage http chatId messageId p sent = Inr r) \<longleftrightarrow>
     0 \<le> p \<and> p < int (length CELEBRATIONS)"
  by (auto simp add: sendCelebrateMessage_def Let_def split: http_outcome.split option.split)

lemma sendCelebrateMessage_contract:
  assumes "0 \<le> p" and "p < int (length CELEBRATIONS)"
  shows "http sent (celebrate_request chatId messageId (nat p)) = PostErr err \<Longrightarrow>
           sendCelebrateMessage http chatId messageId p sent =
             Inr (([], Some err), sent @ [celebrate_request chatId messageId (nat p)])"
    and "http sent (celebrate_request chatId messageId (nat p)) = PostOk bodyBytes None \<Longrightarrow>
           sendCelebrateMessage http chatId messageId p sent =
             Inr ((bodyBytes, None), sent @ [celebrate_request chatId messageId (nat p)])"
  using assms
  by (simp_all add: sendCelebrateMessage_def celebrate_request_def Let_def)

text \<open>
  C7, at the failing input: when the request is answered and reading the body fails, each
  of the four senders returns the empty string together with \<^verbatim>\<open>nil\<close>: the read error
  does not reach the caller.
\<close>

theorem read_failure_returns_no_error:
  "fst (sendTextMessage read_failure_net 42 ''hi'' []) = ([], None)
   \<and> fst (sendLocationMessage read_failure_net 42 (LOCATIONS ! 0) []) = ([], None)
   \<and> fst (sendStartTextMessage read_failure_net 42 ''hi'' []) = ([], None)
   \<and> sendCelebrateMessage read_failure_net 42 7 0 [] =
       Inr (([], None), [celebrate_request 42 7 0])"
  by (simp add: sendTextMessage_def sendLocationMessage_def sendStartTextMessage_def
        sendCelebrateMessage_def celebrate_request_def read_failure_net_def CELEBRATIONS_def
        Let_def)

section \<open>Properties of variant 1\<close>

subsection \<open>The rotation of the index\<close>

lemma next_index_mod:
  assumes "0 \<le> p" and "p < int (length phrases)"
  shows "next_index phrases p = (p + 1) mod int (length phrases)"
  using assms by (simp add: next_index_def Let_def)

lemma next_index_funpow:
  assumes "0 \<le> p" and "p < int (length phrases)"
  shows "(next_index phrases ^^ k) p = (p + int k) mod int (length phrases)"
proof (induction k)
  case 0
  from assms show ?case by simp
next
  case (Suc k)
  let ?n = "int (length phrases)"
  let ?q = "(p + int k) mod ?n"
  have n: "0 < ?n" using assms by linarith
  then have "0 \<le> ?q" and "?q < ?n" by simp_all
  then have "next_index phrases ?q = (?q + 1) mod ?n"
    by (rule next_index_mod)
  also have "\<dots> = (p + int k + 1) mod ?n"
    by (rule mod_add_left_eq)
  also have "p + int k + 1 = p + int (Suc k)"
    by simp
  finally show ?case
    by (simp add: Suc.IH)
qed

text \<open>
  C6: for an index \<open>p\<close> within a phrase list the next index is
  \<open>(p + 1) mod len(phrases)\<close>; applying the step as many times as the list is long
  leads back to \<open>p\<close>; and the index stays within the list after any number of steps.
\<close>

theorem next_index_round_robin:
  assumes "0 \<le> p" and "p < int (length phrases)"
  shows "next_index phrases p = (p + 1) mod int (length phrases)
       \<and> (next_index phrases ^^ length phrases) p = p
       \<and> (\<forall>k. 0 \<le> (next_index phrases ^^ k) p
              \<and> (next_index phrases ^^ k) p < int (length phrases))"
proof -
  have n: "0 < int (length phrases)" using assms by linarith
  have "(next_index phrases ^^ length phrases) p = p"
    using assms by (simp add: next_index_funpow [OF assms])
  moreover have "0 \<le> (next_index phrases ^^ k) p
      \<and> (next_index phrases ^^ k) p < int (length phrases)" for k
    unfolding next_index_funpow [OF assms] using n by simp
  ultimately show ?thesis
    using next_index_mod [OF assms] by blast
qed

theorem next_index_round_robin_witness:
  "(0::int) \<le> 2 \<and> 2 < int (length [''a'', ''b'', ''c''])
   \<and> next_index [''a'', ''b'', ''c''] 2 = 0
   \<and> (next_index [''a'', ''b'', ''c''] ^^ length [''a'', ''b'', ''c'']) 2 = 2"
proof -
  have h1: "(0::int) \<le> 2" and h2: "2 < int (length [''a'', ''b'', ''c''])"
    by simp_all
  from next_index_round_robin [OF h1 h2]
  have step: "next_index [''a'', ''b'', ''c''] 2 = (2 + 1) mod int (length [''a'', ''b'', ''c''])"
    and cycle: "(next_index [''a'', ''b'', ''c''] ^^ length [''a'', ''b'', ''c'']) 2 = 2"
    by blast+
  from step have "next_index [''a'', ''b'', ''c''] 2 = 0"
    by simp
  with cycle h1 h2 show ?thesis
    by blast
qed

subsection \<open>The callback payload\<close>

lemma isAllowed_v1_iff:
  "isAllowed_v1 e \<longleftrightarrow> e \<in> {''antonhulikau'', ''okalitova'', ''maffina95''}"
  by (auto simp add: isAllowed_v1_def isAllowed_loop_iff ALLOWED_USERS_v1_def)

lemma Atoi_syntax_error:
  assumes "snd (Atoi s) = Some ErrSyntax"
  shows "fst (Atoi s) = 0"
  using assms
  by (auto simp add: Atoi_def Let_def split: if_splits uint_result.splits)

lemma handler_v1_callback:
  assumes "parseTelegramRequest_v1 decode body = Inr update"
    and "Message_v1_Text (Update_v1_Message update) \<noteq> ''/start''"
    and "isAllowed_v1 (User_Username (CallbackQuerry_v1_From (Update_v1_CallbackQuerry update)))"
  shows "HandleTelegramWebHook_v1 http decode body =
     (case sendCelebrateMessage http
             (Chat_v1_Id (Message_v1_Chat (CallbackQuerry_v1_Message (Update_v1_CallbackQuerry update))))
             (Message_v1_Id (CallbackQuerry_v1_Message (Update_v1_CallbackQuerry update)))
             (fst (Atoi (CallbackQuerry_v1_Data (Update_v1_CallbackQuerry update)))) [] of
        Inl panic \<Rightarrow> Panicked panic []
      | Inr (res1, sent1) \<Rightarrow> Completed sent1)"
  using assms by (simp add: HandleTelegramWebHook_v1_def Let_def)

lemma callback_update_v1_parsed:
  "parseTelegramRequest_v1 (\<lambda>b. Inr (callback_update_v1 payload)) body = Inr (callback_update_v1 payload)"
  by (simp add: parseTelegramRequest_v1_def callback_update_v1_def)

lemma handler_v1_callback_update:
  "HandleTelegramWebHook_v1 http (\<lambda>b. Inr (callback_update_v1 payload)) body =
     (case sendCelebrateMessage http 42 7 (fst (Atoi payload)) [] of
        Inl panic \<Rightarrow> Panicked panic []
      | Inr (res1, sent1) \<Rightarrow> Completed sent1)"
proof -
  have "Message_v1_Text (Update_v1_Message (callback_update_v1 payload)) \<noteq> ''/start''"
    by (simp add: callback_update_v1_def zero_Message_v1_def)
  moreover have "isAllowed_v1 (User_Username (CallbackQuerry_v1_From
      (Update_v1_CallbackQuerry (callback_update_v1 payload))))"
    by (simp add: callback_update_v1_def isAllowed_v1_iff)
  ultimately show ?thesis
    by (simp add: handler_v1_callback [OF callback_update_v1_parsed])
       (simp add: callback_update_v1_def)
qed

lemma Atoi_examples:
  "Atoi ''1'' = (1, None)"
  "Atoi ''abc'' = (0, Some ErrSyntax)"
  "Atoi ''99999999999999999999'' = (9223372036854775807, Some ErrRange)"
  "Atoi ''-7'' = (- 7, None)"
  "Atoi ''+'' = (0, Some ErrSyntax)"
  "Atoi ''99999999999999999999x'' = (9223372036854775807, Some ErrRange)"
  "Atoi ''-9223372036854775808'' = (- 9223372036854775808, None)"
  "Atoi ''9223372036854775808'' = (9223372036854775807, Some ErrRange)"
  by (simp_all add: Atoi_def Let_def)

lemma length_CELEBRATIONS: "length CELEBRATIONS = 1"
  by (simp add: CELEBRATIONS_def)

text \<open>
  C4, at the failing input: the callback payload \<^verbatim>\<open>1\<close> of an allowed user parses to
  the index 1, the phrase list has one element, and the lookup
  \<^verbatim>\<open>CELEBRATIONS[p]\<close> is out of bounds: the handler is aborted by the panic before
  it posts anything.
\<close>

theorem out_of_range_payload_panics:
  "Atoi ''1'' = (1, None)
   \<and> length CELEBRATIONS = 1
   \<and> HandleTelegramWebHook_v1 quiet_net (\<lambda>b. Inr (callback_update_v1 ''1'')) []
       = Panicked (index_out_of_range 1 1) []"
  by (simp add: handler_v1_callback_update Atoi_examples length_CELEBRATIONS
        sendCelebrateMessage_def)

text \<open>
  C8, the part that fails: a payload of decimal digits that does not fit a 64-bit
  integer does not parse either (\<^verbatim>\<open>strconv.Atoi\<close> returns \<^verbatim>\<open>ErrRange\<close>), but
  the value that comes with the error is the largest integer, not 0, and the handler
  does not make the edit for index 0. The same holds when more bytes follow such digits.
\<close>

theorem out_of_range_numeral_counterexample:
  "\<not> (snd (Atoi ''99999999999999999999'') \<noteq> None \<longrightarrow>
        fst (Atoi ''99999999999999999999'') = 0
        \<and> HandleTelegramWebHook_v1 quiet_net
             (\<lambda>b. Inr (callback_update_v1 ''99999999999999999999'')) []
            = Completed [celebrate_request 42 7 0])"
  by (simp add: Atoi_examples)

text \<open>
  C8, amended: for a callback payload on which \<^verbatim>\<open>strconv.Atoi\<close> reports a syntax
  error (\<^verbatim>\<open>ErrSyntax\<close>), sent by an allowed user, the dispatch goes on with the
  default index 0 and the handler runs to its end: its one request is the edit that
  shows the phrase of index 0 and attaches the button with the next index again.
\<close>

theorem syntax_error_payload_defaults_to_zero:
  assumes "parseTelegramRequest_v1 decode body = Inr update"
    and "Message_v1_Text (Update_v1_Message update) \<noteq> ''/start''"
    and "User_Username (CallbackQuerry_v1_From (Update_v1_CallbackQuerry update))
           \<in> {''antonhulikau'', ''okalitova'', ''maffina95''}"
    and "snd (Atoi (CallbackQuerry_v1_Data (Update_v1_CallbackQuerry update))) = Some ErrSyntax"
  shows "fst (Atoi (CallbackQuerry_v1_Data (Update_v1_CallbackQuerry update))) = 0
       \<and> HandleTelegramWebHook_v1 http decode body =
           Completed
             [celebrate_request
                (Chat_v1_Id (Message_v1_Chat (CallbackQuerry_v1_Message (Update_v1_CallbackQuerry update))))
                (Message_v1_Id (CallbackQuerry_v1_Message (Update_v1_CallbackQuerry update))) 0]"
proof -
  let ?chat = "Chat_v1_Id (Message_v1_Chat (CallbackQuerry_v1_Message (Update_v1_CallbackQuerry update)))"
  let ?msg = "Message_v1_Id (CallbackQuerry_v1_Message (Update_v1_CallbackQuerry update))"
  have allowed: "isAllowed_v1 (User_Username (CallbackQuerry_v1_From (Update_v1_CallbackQuerry update)))"
    using assms(3) by (simp add: isAllowed_v1_iff)
  have p: "fst (Atoi (CallbackQuerry_v1_Data (Update_v1_CallbackQuerry update))) = 0"
    using assms(4) by (rule Atoi_syntax_error)
  obtain res where "sendCelebrateMessage http ?chat ?msg 0 [] =
      Inr (res, [] @ [celebrate_request ?chat ?msg (nat 0)])"
    using sendCelebrateMessage_in_range [of 0 http ?chat ?msg "[]"]
    by (auto simp add: length_CELEBRATIONS)
  then have "HandleTelegramWebHook_v1 http decode body = Completed [celebrate_request ?chat ?msg 0]"
    by (simp add: handler_v1_callback [OF assms(1,2) allowed] p)
  with p show ?thesis by blast
qed

theorem syntax_error_payload_defaults_to_zero_witness:
  "parseTelegramRequest_v1 (\<lambda>b. Inr (callback_update_v1 ''abc'')) [] = Inr (callback_update_v1 ''abc'')
   \<and> Message_v1_Text (Update_v1_Message (callback_update_v1 ''abc'')) \<noteq> ''/start''
   \<and> User_Username (CallbackQuerry_v1_From (Update_v1_CallbackQuerry (callback_update_v1 ''abc'')))
       \<in> {''antonhulikau'', ''okalitova'', ''maffina95''}
   \<and> snd (Atoi (CallbackQuerry_v1_Data (Update_v1_CallbackQuerry (callback_update_v1 ''abc''))))
       = Some ErrSyntax
   \<and> HandleTelegramWebHook_v1 read_failure_net (\<lambda>b. Inr (callback_update_v1 ''abc'')) []
       = Completed [celebrate_request 42 7 0]"
proof -
  let ?u = "callback_update_v1 ''abc''"
  have h1: "parseTelegramRequest_v1 (\<lambda>b. Inr ?u) [] = Inr ?u"
    by (rule callback_update_v1_parsed)
  have h2: "Message_v1_Text (Update_v1_Message ?u) \<noteq> ''/start''"
    by (simp add: callback_update_v1_def zero_Message_v1_def)
  have h3: "User_Username (CallbackQuerry_v1_From (Update_v1_CallbackQuerry ?u))
       \<in> {''antonhulikau'', ''okalitova'', ''maffina95''}"
    by (simp add: callback_update_v1_def)
  have h4: "snd (Atoi (CallbackQuerry_v1_Data (Update_v1_CallbackQuerry ?u))) = Some ErrSyntax"
    by (simp add: callback_update_v1_def Atoi_examples)
  have chat: "Chat_v1_Id (Message_v1_Chat (CallbackQuerry_v1_Message (Update_v1_CallbackQuerry ?u))) = 42"
    and msg: "Message_v1_Id (CallbackQuerry_v1_Message (Update_v1_CallbackQuerry ?u)) = 7"
    by (simp_all add: callback_update_v1_def)
  from syntax_error_payload_defaults_to_zero [OF h1 h2 h3 h4, of read_failure_net] h1 h2 h3 h4
  show ?thesis
    unfolding chat msg by blast
qed


end
